theory Spec2Isabelle
  imports Complex_Main
begin

section \<open>Numbers\<close>

text \<open>
  The program computes with JavaScript Numbers. The embedding reads a finite Number as a
  \<^typ>\<open>real\<close> and \<^verbatim>\<open>Math.sin\<close>, \<^verbatim>\<open>Math.cos\<close>, \<^verbatim>\<open>Math.tan\<close>,
  \<^verbatim>\<open>Math.asin\<close>, \<^verbatim>\<open>Math.acos\<close> and \<^verbatim>\<open>Math.PI\<close> as the functions and
  the constant of analysis, so rounding is left out: the arithmetic is exact, and for
  instance the cosine of \<open>toRad 90\<close> is 0. What JavaScript does where the real operation
  has no finite value is written out: a quotient by zero and an arcsine outside
  \<open>[-1, 1]\<close> give a value of \<open>jsnum\<close> that is not \<open>Fin\<close>. Signed zeros are not
  modelled.
\<close>

datatype jsnum = Fin real | PInf | NInf | NaN

definition toRad :: "real \<Rightarrow> real" where
  "toRad deg = deg * pi / 180"

definition toDeg :: "real \<Rightarrow> real" where
  "toDeg rad = rad * 180 / pi"

text \<open>The remainder operator \<^verbatim>\<open>%\<close>: the quotient is truncated towards zero, so the
  result has the sign of the dividend.\<close>

definition js_trunc :: "real \<Rightarrow> int" where
  "js_trunc x = (if 0 \<le> x then \<lfloor>x\<rfloor> else \<lceil>x\<rceil>)"

definition js_rem :: "real \<Rightarrow> real \<Rightarrow> real" where
  "js_rem x y = x - y * of_int (js_trunc (x / y))"

text \<open>The modulo of the specification (\<open>positive-result convention\<close>): the remainder of
  the floored quotient.\<close>

definition spec_mod :: "real \<Rightarrow> real \<Rightarrow> real" where
  "spec_mod x y = x - y * of_int \<lfloor>x / y\<rfloor>"

text \<open>Division: a zero divisor gives \<open>NaN\<close> for a zero dividend and an infinity
  otherwise.\<close>

definition js_div :: "real \<Rightarrow> real \<Rightarrow> jsnum" where
  "js_div x y =
     (if y \<noteq> 0 then Fin (x / y)
      else if 0 < x then PInf else if x < 0 then NInf else NaN)"

text \<open>\<^verbatim>\<open>Math.asin\<close> is \<open>NaN\<close> outside \<open>[-1, 1]\<close>.\<close>

definition js_asin :: "real \<Rightarrow> jsnum" where
  "js_asin x = (if -1 \<le> x \<and> x \<le> 1 then Fin (arcsin x) else NaN)"

text \<open>\<^verbatim>\<open>Math.atan2(y, x)\<close>: the angle of the point \<open>(x, y)\<close> in \<open>(-\<pi>, \<pi>]\<close>, with the
  values ECMAScript fixes for infinite arguments. With the single zero of the reals,
  \<open>real_atan2 0 x\<close> is \<open>\<pi>\<close> for negative \<open>x\<close>; \<^verbatim>\<open>Math.atan2(-0, x)\<close> is \<open>-\<pi>\<close> there.\<close>

definition real_atan2 :: "real \<Rightarrow> real \<Rightarrow> real" where
  "real_atan2 y x =
     (if 0 < x then arctan (y / x)
      else if x < 0 then (if 0 \<le> y then arctan (y / x) + pi else arctan (y / x) - pi)
      else if 0 < y then pi / 2 else if y < 0 then - pi / 2 else 0)"

fun js_atan2 :: "jsnum \<Rightarrow> jsnum \<Rightarrow> jsnum" where
  "js_atan2 NaN x = NaN"
| "js_atan2 y NaN = NaN"
| "js_atan2 PInf PInf = Fin (pi / 4)"
| "js_atan2 PInf NInf = Fin (3 * pi / 4)"
| "js_atan2 PInf (Fin x) = Fin (pi / 2)"
| "js_atan2 NInf PInf = Fin (- pi / 4)"
| "js_atan2 NInf NInf = Fin (- 3 * pi / 4)"
| "js_atan2 NInf (Fin x) = Fin (- pi / 2)"
| "js_atan2 (Fin y) PInf = Fin 0"
| "js_atan2 (Fin y) NInf = Fin (if 0 \<le> y then pi else - pi)"
| "js_atan2 (Fin y) (Fin x) = Fin (real_atan2 y x)"

text \<open>\<open>toDeg\<close> applied to a value that may not be finite. The only such values it
  meets are angles and \<open>NaN\<close>; the infinities are mapped as the multiplication by
  \<open>180 / \<pi>\<close> maps them.\<close>

fun js_toDeg :: "jsnum \<Rightarrow> jsnum" where
  "js_toDeg (Fin r) = Fin (toDeg r)"
| "js_toDeg PInf = PInf"
| "js_toDeg NInf = NInf"
| "js_toDeg NaN = NaN"

record position =
  altitude :: jsnum
  azimuth :: jsnum

section \<open>The orbit dashboard (simulation.js, class AnalemmaSimulation)\<close>

record params =
  tilt :: real
  eccentricity :: real
  perihelionDay :: int
  speed :: real
  currentDay :: real
  isPlaying :: bool
  showTiltComponent :: bool
  showEccentricityComponent :: bool

definition default_params :: params where
  "default_params =
     \<lparr>tilt = 234 / 10, eccentricity = 17 / 1000, perihelionDay = 3, speed = 1,
      currentDay = 0, isPlaying = True, showTiltComponent = True,
      showEccentricityComponent = True\<rparr>"

definition getMeanAnomaly :: "params \<Rightarrow> real \<Rightarrow> real" where
  "getMeanAnomaly p day =
     (let daysSincePerihelion = js_rem (day - of_int (perihelionDay p) + 365) 365
      in toRad (360 * daysSincePerihelion / 365))"

definition getTrueAnomaly :: "params \<Rightarrow> real \<Rightarrow> real" where
  "getTrueAnomaly p meanAnomaly =
     (let e = eccentricity p;
          M = meanAnomaly;
          C = (2 * e - e * e * e / 4) * sin M +
              (5 * e * e / 4) * sin (2 * M) +
              (13 * e * e * e / 12) * sin (3 * M)
      in M + C)"

definition getSolarLongitude :: "params \<Rightarrow> real \<Rightarrow> real" where
  "getSolarLongitude p day =
     (let springEquinox = 80;
          meanLongitude = toRad (360 * (day - springEquinox) / 365);
          meanAnomaly = getMeanAnomaly p day;
          trueAnomaly = getTrueAnomaly p meanAnomaly;
          equationOfCenter = trueAnomaly - meanAnomaly
      in meanLongitude + equationOfCenter)"

definition getSolarDeclination :: "params \<Rightarrow> real \<Rightarrow> real" where
  "getSolarDeclination p day =
     (let solarLongitude = getSolarLongitude p day;
          obliquity = toRad (tilt p);
          declination = arcsin (sin obliquity * sin solarLongitude)
      in toDeg declination)"

record eot_components =
  eot_eccentricity :: real
  eot_obliquity :: real

definition getEOTComponents :: "params \<Rightarrow> real \<Rightarrow> eot_components" where
  "getEOTComponents p day =
     (let obliquity = toRad (tilt p);
          e = eccentricity p;
          M = getMeanAnomaly p day;
          springEquinox = 80;
          L = toRad (360 * (day - springEquinox) / 365);
          eccentricityEffect = - 2 * e * sin M - (125 / 100) * e * e * sin (2 * M);
          y = tan (obliquity / 2);
          y2 = y * y;
          obliquityEffect = y2 * sin (2 * L) - (5 / 10) * y2 * y2 * sin (4 * L)
      in \<lparr>eot_eccentricity = eccentricityEffect * (22918 / 100),
          eot_obliquity = obliquityEffect * (22918 / 100)\<rparr>)"

definition getEquationOfTime :: "params \<Rightarrow> real \<Rightarrow> real" where
  "getEquationOfTime p day =
     (let components = getEOTComponents p day;
          eot = 0;
          eot = (if showEccentricityComponent p then eot + eot_eccentricity components
                 else eot);
          eot = (if showTiltComponent p then eot + eot_obliquity components else eot)
      in eot)"

definition getOrbitalSpeed :: "params \<Rightarrow> real \<Rightarrow> real" where
  "getOrbitalSpeed p day =
     (let meanAnomaly = getMeanAnomaly p day;
          trueAnomaly = getTrueAnomaly p meanAnomaly;
          e = eccentricity p
      in 1 + e * cos trueAnomaly)"

text \<open>The yearly mean of the specification: the average of \<open>getOrbitalSpeed\<close> over the 365
  days \<open>0, \<dots>, 364\<close> that \<open>currentDay\<close> runs through.\<close>

definition yearlyMeanSpeed :: "params \<Rightarrow> real" where
  "yearlyMeanSpeed p = (\<Sum>d = 0..<365. getOrbitalSpeed p (real d)) / 365"

section \<open>The sky view (sky.js, class SkySimulation)\<close>

record sky =
  sky_hour :: real
  sky_latitude :: real
  sky_tilt :: real
  sky_eccentricity :: real
  sky_perihelionDay :: int

definition default_sky :: sky where
  "default_sky =
     \<lparr>sky_hour = 12, sky_latitude = 40, sky_tilt = 2344 / 100,
      sky_eccentricity = 167 / 10000, sky_perihelionDay = 3\<rparr>"

definition getMeanAnomaly_sky :: "sky \<Rightarrow> real \<Rightarrow> real" where
  "getMeanAnomaly_sky s day =
     (let daysFromPerihelion = js_rem (day - of_int (sky_perihelionDay s) + 365) 365
      in toRad (360 * daysFromPerihelion / 365))"

definition getTrueAnomaly_sky :: "sky \<Rightarrow> real \<Rightarrow> real" where
  "getTrueAnomaly_sky s M =
     (let e = sky_eccentricity s
      in M + 2 * e * sin M + (125 / 100) * e * e * sin (2 * M))"

definition getDeclination_sky :: "sky \<Rightarrow> real \<Rightarrow> real" where
  "getDeclination_sky s day =
     (let obliquity = toRad (sky_tilt s);
          springEquinox = 80;
          M = getMeanAnomaly_sky s day;
          v = getTrueAnomaly_sky s M;
          perihelionLongitude =
            toRad (360 * (of_int (sky_perihelionDay s) - springEquinox) / 365);
          solarLongitude = v + perihelionLongitude + pi
      in arcsin (sin obliquity * sin solarLongitude))"

text \<open>The equation of time of the sky view, in hours.\<close>

definition getEquationOfTime_sky :: "sky \<Rightarrow> real \<Rightarrow> real" where
  "getEquationOfTime_sky s day =
     (let obliquity = toRad (sky_tilt s);
          e = sky_eccentricity s;
          M = getMeanAnomaly_sky s day;
          springEquinox = 80;
          L = toRad (360 * (day - springEquinox) / 365);
          eccentricityEffect = - 2 * e * sin M - (125 / 100) * e * e * sin (2 * M);
          y = tan (obliquity / 2);
          y2 = y * y;
          obliquityEffect = y2 * sin (2 * L) - (5 / 10) * y2 * y2 * sin (4 * L)
      in (eccentricityEffect + obliquityEffect) * 24 / (2 * pi))"

text \<open>The transform of the sky view: the arcsine is taken of \<open>sinAlt\<close> as it is and the
  denominators are used as they are. Once the altitude is \<open>NaN\<close>, so is everything
  computed from it. The locals \<open>altitude\<close> and \<open>azimuth\<close> of the source (radians) are
  \<open>alt\<close> and \<open>az\<close> here; the fields of the result keep their names.\<close>

definition equatorialToHorizontal_sky :: "real \<Rightarrow> real \<Rightarrow> real \<Rightarrow> position" where
  "equatorialToHorizontal_sky hourAngle declination latitude =
     (let ha = toRad (hourAngle * 15);
          dec = declination;
          lat = toRad latitude;
          sinAlt = sin dec * sin lat + cos dec * cos lat * cos ha
      in case js_asin sinAlt of
           Fin alt \<Rightarrow>
             (let cosAz = js_div (sin dec - sin lat * sinAlt) (cos lat * cos alt);
                  sinAz = js_div (- sin ha * cos dec) (cos alt);
                  az = js_atan2 sinAz cosAz
              in \<lparr>altitude = Fin (toDeg alt), azimuth = js_toDeg az\<rparr>)
         | _ \<Rightarrow> \<lparr>altitude = NaN, azimuth = NaN\<rparr>)"

definition getSunPosition :: "sky \<Rightarrow> real \<Rightarrow> real \<Rightarrow> position" where
  "getSunPosition s day hour =
     (let declination = getDeclination_sky s day;
          eot = getEquationOfTime_sky s day;
          solarHour = hour + eot;
          hourAngle = solarHour - 12
      in equatorialToHorizontal_sky hourAngle declination (sky_latitude s))"

section \<open>The solograph (class Solograph)\<close>

record trace_point =
  tr_day :: nat
  tr_altitude :: jsnum
  tr_azimuth :: jsnum

record path_point =
  pp_hour :: real
  pp_altitude :: jsnum
  pp_azimuth :: jsnum

text \<open>A field of \<open>sun_times\<close> that the returned object does not have is \<open>None\<close>.\<close>

record sun_times =
  sunrise :: real
  sunset :: real
  dayLength :: real
  neverSets :: "bool option"
  neverRises :: "bool option"

record solograph =
  sol_latitude :: real
  sol_dayOfYear :: real
  sol_tilt :: real
  sol_hourTraces :: "nat \<Rightarrow> trace_point list option"

definition default_solograph :: solograph where
  "default_solograph =
     \<lparr>sol_latitude = 40, sol_dayOfYear = 172, sol_tilt = 2344 / 100,
      sol_hourTraces = (\<lambda>hour. None)\<rparr>"

definition getDeclination :: "solograph \<Rightarrow> real \<Rightarrow> real" where
  "getDeclination s day =
     (let obliquity = toRad (sol_tilt s);
          springEquinox = 80;
          angle = toRad (360 * (day - springEquinox) / 365)
      in arcsin (sin obliquity * sin angle))"

definition equatorialToHorizontal :: "real \<Rightarrow> real \<Rightarrow> real \<Rightarrow> position" where
  "equatorialToHorizontal hourAngle declination latitude =
     (let ha = toRad (hourAngle * 15);
          dec = declination;
          lat = toRad latitude;
          sinAlt = sin dec * sin lat + cos dec * cos lat * cos ha;
          alt = arcsin (max (- 1) (min 1 sinAlt));
          cosAz = js_div (sin dec - sin lat * sinAlt) (cos lat * cos alt + 1 / 10000);
          sinAz = js_div (- sin ha * cos dec) (cos alt + 1 / 10000);
          az = js_atan2 sinAz cosAz
      in \<lparr>altitude = Fin (toDeg alt), azimuth = js_toDeg az\<rparr>)"

function getSunPath_loop ::
  "solograph \<Rightarrow> real \<Rightarrow> nat \<Rightarrow> path_point list \<Rightarrow> path_point list" where
  "getSunPath_loop s declination minutes points =
     (if minutes < 24 * 60 then
        (let hour = real minutes / 60;
             hourAngle = hour - 12;
             pos = equatorialToHorizontal hourAngle declination (sol_latitude s)
         in getSunPath_loop s declination (minutes + 5)
              (points @ [\<lparr>pp_hour = hour, pp_altitude = altitude pos,
                            pp_azimuth = azimuth pos\<rparr>]))
      else points)"
  by pat_completeness auto
termination
  by (relation "measure (\<lambda>(s, declination, minutes, points). 24 * 60 - minutes)") simp_all

declare getSunPath_loop.simps [simp del]

definition getSunPath :: "solograph \<Rightarrow> real \<Rightarrow> path_point list" where
  "getSunPath s day =
     (let declination = getDeclination s day
      in getSunPath_loop s declination 0 [])"

definition getSunTimes :: "solograph \<Rightarrow> real \<Rightarrow> sun_times" where
  "getSunTimes s day =
     (let declination = getDeclination s day;
          lat = toRad (sol_latitude s);
          cosHa = - tan lat * tan declination
      in if cosHa < - 1 then
           \<lparr>sunrise = 0, sunset = 24, dayLength = 24,
            neverSets = Some True, neverRises = None\<rparr>
         else if cosHa > 1 then
           \<lparr>sunrise = 12, sunset = 12, dayLength = 0,
            neverSets = None, neverRises = Some True\<rparr>
         else
           (let ha = toDeg (arccos cosHa) / 15;
                sunrise = 12 - ha;
                sunset = 12 + ha
            in \<lparr>sunrise = sunrise, sunset = sunset, dayLength = sunset - sunrise,
                neverSets = None, neverRises = None\<rparr>))"

text \<open>The two nested loops of \<open>initializeHourTraces\<close>: the inner one pushes one entry per
  day onto the trace of the hour, the outer one stores a trace under every hour.\<close>

function trace_day_loop ::
  "solograph \<Rightarrow> nat \<Rightarrow> nat \<Rightarrow> trace_point list \<Rightarrow> trace_point list" where
  "trace_day_loop s hour day trace =
     (if day \<le> 365 then
        (let declination = getDeclination s (real day);
             hourAngle = real hour - 12;
             pos = equatorialToHorizontal hourAngle declination (sol_latitude s)
         in trace_day_loop s hour (day + 1)
              (trace @ [\<lparr>tr_day = day, tr_altitude = altitude pos,
                           tr_azimuth = azimuth pos\<rparr>]))
      else trace)"
  by pat_completeness auto
termination
  by (relation "measure (\<lambda>(s, hour, day, trace). 366 - day)") simp_all

declare trace_day_loop.simps [simp del]

function trace_hour_loop ::
  "solograph \<Rightarrow> nat \<Rightarrow> (nat \<Rightarrow> trace_point list option)
     \<Rightarrow> (nat \<Rightarrow> trace_point list option)" where
  "trace_hour_loop s hour traces =
     (if hour \<le> 19 then
        trace_hour_loop s (hour + 1) (traces(hour \<mapsto> trace_day_loop s hour 1 []))
      else traces)"
  by pat_completeness auto
termination
  by (relation "measure (\<lambda>(s, hour, traces). 20 - hour)") simp_all

declare trace_hour_loop.simps [simp del]

definition initializeHourTraces :: "solograph \<Rightarrow> solograph" where
  "initializeHourTraces s = s\<lparr>sol_hourTraces := trace_hour_loop s 5 (\<lambda>hour. None)\<rparr>"

text \<open>The bodies of the loops of \<open>getSunPath\<close> and \<open>initializeHourTraces\<close>: the entry
  pushed at one minute count, and at one hour and day. They state what the loops
  compute.\<close>

definition sunPathPoint :: "solograph \<Rightarrow> real \<Rightarrow> nat \<Rightarrow> path_point" where
  "sunPathPoint s declination minutes =
     (let hour = real minutes / 60;
          hourAngle = hour - 12;
          pos = equatorialToHorizontal hourAngle declination (sol_latitude s)
      in \<lparr>pp_hour = hour, pp_altitude = altitude pos, pp_azimuth = azimuth pos\<rparr>)"

definition hourTracePoint :: "solograph \<Rightarrow> nat \<Rightarrow> nat \<Rightarrow> trace_point" where
  "hourTracePoint s hour day =
     (let declination = getDeclination s (real day);
          hourAngle = real hour - 12;
          pos = equatorialToHorizontal hourAngle declination (sol_latitude s)
      in \<lparr>tr_day = day, tr_altitude = altitude pos, tr_azimuth = azimuth pos\<rparr>)"

text \<open>Two solographs near the poles, with the default tilt: inputs for the polar branches
  of \<open>getSunTimes\<close>.\<close>

definition polar_north :: solograph where
  "polar_north = default_solograph\<lparr>sol_latitude := 89\<rparr>"

definition polar_south :: solograph where
  "polar_south = default_solograph\<lparr>sol_latitude := - 89\<rparr>"

section \<open>Remainders\<close>

lemma js_rem_nonneg_eq_spec_mod:
  assumes "0 \<le> x" "0 < y"
  shows "js_rem x y = spec_mod x y"
proof -
  from assms have "0 \<le> x / y" by simp
  then show ?thesis by (simp add: js_rem_def spec_mod_def js_trunc_def)
qed

lemma spec_mod_range:
  assumes "0 < y"
  shows "0 \<le> spec_mod x y \<and> spec_mod x y < y"
proof -
  have "of_int \<lfloor>x / y\<rfloor> * y \<le> x"
    using assms by (rule floor_divide_lower)
  moreover have "x < (of_int \<lfloor>x / y\<rfloor> + 1) * y"
    using assms by (rule floor_divide_upper)
  ultimately show ?thesis
    by (simp add: spec_mod_def algebra_simps)
qed

lemma mean_anomaly_range:
  assumes "0 \<le> x"
  shows "toRad (360 * js_rem x 365 / 365) = 2 * pi * spec_mod x 365 / 365
    \<and> 0 \<le> toRad (360 * js_rem x 365 / 365)
    \<and> toRad (360 * js_rem x 365 / 365) < 2 * pi"
proof -
  have eq: "js_rem x 365 = spec_mod x 365"
    using assms by (rule js_rem_nonneg_eq_spec_mod) simp
  have r: "0 \<le> spec_mod x 365 \<and> spec_mod x 365 < 365"
    by (rule spec_mod_range) simp
  have t: "toRad (360 * js_rem x 365 / 365) = 2 * pi * spec_mod x 365 / 365"
    unfolding toRad_def eq by simp
  have "pi * spec_mod x 365 < pi * 365"
    using r pi_gt_zero by simp
  then have hi: "2 * pi * spec_mod x 365 / 365 < 2 * pi" by simp
  have lo: "0 \<le> 2 * pi * spec_mod x 365 / 365"
    using r by simp
  show ?thesis
    unfolding t using lo hi by blast
qed

section \<open>Mean anomaly\<close>

text \<open>
  C5. For a day in \<open>[0, 365)\<close> and a perihelion day in \<open>1..365\<close>, \<open>getMeanAnomaly\<close>
  (dashboard and sky view alike) is \<open>2\<pi> * ((day - perihelionDay + 365) mod 365) / 365\<close>
  with the positive-result modulo, and lies in \<open>[0, 2\<pi>)\<close>: the 365 added before the
  remainder keeps the dividend non-negative, so the truncating \<^verbatim>\<open>%\<close> never yields a
  negative angle.
\<close>

theorem getMeanAnomaly_range:
  assumes "0 \<le> day" "day < 365"
    and "1 \<le> perihelionDay p" "perihelionDay p \<le> 365"
    and "1 \<le> sky_perihelionDay s" "sky_perihelionDay s \<le> 365"
  shows "getMeanAnomaly p day
           = 2 * pi * spec_mod (day - of_int (perihelionDay p) + 365) 365 / 365
       \<and> 0 \<le> getMeanAnomaly p day \<and> getMeanAnomaly p day < 2 * pi
       \<and> getMeanAnomaly_sky s day
           = 2 * pi * spec_mod (day - of_int (sky_perihelionDay s) + 365) 365 / 365
       \<and> 0 \<le> getMeanAnomaly_sky s day \<and> getMeanAnomaly_sky s day < 2 * pi"
proof -
  have a: "0 \<le> day - of_int (perihelionDay p) + 365"
    using assms(1,4) by simp
  have b: "0 \<le> day - of_int (sky_perihelionDay s) + 365"
    using assms(1,6) by simp
  show ?thesis
    using mean_anomaly_range [OF a] mean_anomaly_range [OF b]
    by (simp add: getMeanAnomaly_def getMeanAnomaly_sky_def)
qed

theorem getMeanAnomaly_range_witness:
  "getMeanAnomaly default_params 0 = 2 * pi * spec_mod (0 - of_int 3 + 365) 365 / 365
   \<and> 0 \<le> getMeanAnomaly default_params 0 \<and> getMeanAnomaly default_params 0 < 2 * pi
   \<and> getMeanAnomaly_sky default_sky 0 = 2 * pi * spec_mod (0 - of_int 3 + 365) 365 / 365
   \<and> 0 \<le> getMeanAnomaly_sky default_sky 0 \<and> getMeanAnomaly_sky default_sky 0 < 2 * pi"
  using getMeanAnomaly_range [of 0 default_params default_sky]
  by (simp add: default_params_def default_sky_def)

section \<open>True anomaly\<close>

text \<open>
  C4 (as amended). The dashboard's \<open>getTrueAnomaly\<close> returns exactly the equation-of-centre
  series with the terms through \<open>e\<^sup>3\<close>:
  \<open>M + (2e - e\<^sup>3/4) sin M + (5e\<^sup>2/4) sin 2M + (13e\<^sup>3/12) sin 3M\<close>.
  The sky view's \<open>getTrueAnomaly\<close> returns the series cut after the \<open>e\<^sup>2\<close> terms:
  \<open>M + 2e sin M + (5e\<^sup>2/4) sin 2M\<close>.
\<close>

theorem getTrueAnomaly_series:
  "getTrueAnomaly p M =
     M + ((2 * eccentricity p - (eccentricity p) ^ 3 / 4) * sin M
       + (5 * (eccentricity p)\<^sup>2 / 4) * sin (2 * M)
       + (13 * (eccentricity p) ^ 3 / 12) * sin (3 * M))
   \<and> getTrueAnomaly_sky s M =
     M + 2 * sky_eccentricity s * sin M + (5 / 4) * (sky_eccentricity s)\<^sup>2 * sin (2 * M)"
  by (simp add: getTrueAnomaly_def getTrueAnomaly_sky_def Let_def power2_eq_square
      power3_eq_cube)

text \<open>
  C4 as stated fails for the sky view: with its eccentricity 0.0167 and \<open>M = \<pi>/2\<close> the
  value is \<open>\<pi>/2 + 2e\<close>, while the series through \<open>e\<^sup>3\<close> gives \<open>\<pi>/2 + 2e - 4e\<^sup>3/3\<close>.
\<close>

theorem getTrueAnomaly_sky_counterexample:
  "getTrueAnomaly_sky default_sky (pi / 2) \<noteq>
     pi / 2 + ((2 * sky_eccentricity default_sky - (sky_eccentricity default_sky) ^ 3 / 4)
                 * sin (pi / 2)
       + (5 * (sky_eccentricity default_sky)\<^sup>2 / 4) * sin (2 * (pi / 2))
       + (13 * (sky_eccentricity default_sky) ^ 3 / 12) * sin (3 * (pi / 2)))"
proof -
  have "sin (3 / 2 * pi) = - 1" by (rule sin_3over2_pi)
  then have s3: "sin (3 * pi / 2) = - 1" by simp
  show ?thesis
    by (simp add: getTrueAnomaly_sky_def default_sky_def s3)
qed

section \<open>Equation of time of the dashboard\<close>

text \<open>
  C7. \<open>getEquationOfTime\<close> is the sum of exactly those components of \<open>getEOTComponents\<close>
  whose flag is on. Each component is its effect in radians times 229.18, the source's
  constant for \<open>1440 / (2\<pi>)\<close>, so it is in minutes. \<open>getEOTComponents\<close> does not read the
  flags, so both components can be retrieved whatever the flags are. With both flags off
  \<open>getEquationOfTime\<close> is 0.
\<close>

theorem getEquationOfTime_components:
  "getEquationOfTime p day =
     (if showEccentricityComponent p then eot_eccentricity (getEOTComponents p day) else 0)
   + (if showTiltComponent p then eot_obliquity (getEOTComponents p day) else 0)
   \<and> eot_eccentricity (getEOTComponents p day) =
       (- 2 * eccentricity p * sin (getMeanAnomaly p day)
        - (5 / 4) * (eccentricity p)\<^sup>2 * sin (2 * getMeanAnomaly p day)) * (22918 / 100)
   \<and> eot_obliquity (getEOTComponents p day) =
       ((tan (toRad (tilt p) / 2))\<^sup>2 * sin (2 * toRad (360 * (day - 80) / 365))
        - (1 / 2) * (tan (toRad (tilt p) / 2)) ^ 4 * sin (4 * toRad (360 * (day - 80) / 365)))
       * (22918 / 100)
   \<and> getEOTComponents (p\<lparr>showEccentricityComponent := a, showTiltComponent := b\<rparr>) day
       = getEOTComponents p day
   \<and> getEquationOfTime
         (p\<lparr>showEccentricityComponent := False, showTiltComponent := False\<rparr>) day = 0"
proof -
  have total: "getEquationOfTime p day =
     (if showEccentricityComponent p then eot_eccentricity (getEOTComponents p day) else 0)
   + (if showTiltComponent p then eot_obliquity (getEOTComponents p day) else 0)"
    by (simp add: getEquationOfTime_def Let_def)
  have ecc: "eot_eccentricity (getEOTComponents p day) =
       (- 2 * eccentricity p * sin (getMeanAnomaly p day)
        - (5 / 4) * (eccentricity p)\<^sup>2 * sin (2 * getMeanAnomaly p day)) * (22918 / 100)"
    by (simp add: getEOTComponents_def Let_def power2_eq_square)
  have obl: "eot_obliquity (getEOTComponents p day) =
       ((tan (toRad (tilt p) / 2))\<^sup>2 * sin (2 * toRad (360 * (day - 80) / 365))
        - (1 / 2) * (tan (toRad (tilt p) / 2)) ^ 4 * sin (4 * toRad (360 * (day - 80) / 365)))
       * (22918 / 100)"
    by (simp add: getEOTComponents_def Let_def power2_eq_square power4_eq_xxxx)
  have flags: "getEOTComponents (p\<lparr>showEccentricityComponent := a, showTiltComponent := b\<rparr>) day
       = getEOTComponents p day"
    by (simp add: getEOTComponents_def getMeanAnomaly_def)
  have off: "getEquationOfTime
         (p\<lparr>showEccentricityComponent := False, showTiltComponent := False\<rparr>) day = 0"
    by (simp add: getEquationOfTime_def Let_def)
  from total ecc obl flags off show ?thesis by blast
qed

section \<open>Declination\<close>

lemma sin_prod_range: "- 1 \<le> sin a * sin b \<and> sin a * sin b \<le> (1::real)"
proof -
  have "\<bar>sin a * sin b\<bar> \<le> 1 * 1"
    unfolding abs_mult by (rule mult_mono) simp_all
  then show ?thesis by (simp add: abs_le_iff)
qed

lemma arcsin_sin_prod_bound:
  assumes "0 \<le> a" "a \<le> pi / 2"
  shows "\<bar>arcsin (sin a * sin b)\<bar> \<le> a"
proof -
  have a_pi: "a \<le> pi" using assms(2) pi_gt_zero by linarith
  have sa: "0 \<le> sin a" using assms(1) a_pi by (rule sin_ge_zero)
  have up: "sin a * sin b \<le> sin a"
    using sa mult_left_le [of "sin b" "sin a"] by simp
  have "sin a * (- 1) \<le> sin a * sin b"
    using sa by (intro mult_left_mono) simp_all
  then have lo: "- sin a \<le> sin a * sin b" by simp
  have asin: "arcsin (sin a) = a"
    using assms by (intro arcsin_sin) linarith+
  have "arcsin (sin a * sin b) \<le> arcsin (sin a)"
    using sin_prod_range [of a b] up by (intro arcsin_le_arcsin) simp_all
  moreover have "arcsin (- sin a) \<le> arcsin (sin a * sin b)"
    using sin_prod_range [of a b] lo by (intro arcsin_le_arcsin) simp_all
  moreover have "arcsin (- sin a) = - arcsin (sin a)"
    by (intro arcsin_minus) simp_all
  ultimately show ?thesis using asin by (simp add: abs_le_iff)
qed

lemma toRad_tilt_range:
  assumes "0 \<le> t" "t \<le> 90"
  shows "0 \<le> toRad t \<and> toRad t \<le> pi / 2"
proof -
  have "t * pi \<le> 90 * pi" using assms(2) pi_gt_zero by simp
  then have "t * pi / 180 \<le> pi / 2" by simp
  moreover have "0 \<le> t * pi / 180" using assms(1) pi_gt_zero by simp
  ultimately show ?thesis by (simp add: toRad_def)
qed

lemma toDeg_abs_le:
  assumes "\<bar>x\<bar> \<le> toRad t"
  shows "\<bar>toDeg x\<bar> \<le> t"
proof -
  have "\<bar>toDeg x\<bar> = \<bar>x\<bar> * 180 / pi"
    by (simp add: toDeg_def abs_mult)
  also have "\<dots> \<le> toRad t * 180 / pi"
    using assms pi_gt_zero by (simp add: divide_right_mono)
  also have "\<dots> = t" by (simp add: toRad_def)
  finally show ?thesis .
qed

text \<open>
  C6. For a tilt in \<open>[0, 90]\<close> the declination is bounded by the tilt on every day: the
  dashboard's \<open>getSolarDeclination\<close> (degrees) by the tilt in degrees, the solograph's
  \<open>getDeclination\<close> (radians) by the tilt in radians, and in degrees after \<open>toDeg\<close>. With
  tilt 0 both are exactly 0. The argument of \<^verbatim>\<open>Math.asin\<close> is a product of two sines, so
  it lies in \<open>[-1, 1]\<close> and the arcsine is a number, never \<open>NaN\<close>.
\<close>

theorem declination_bounded:
  assumes "0 \<le> tilt p" "tilt p \<le> 90" "0 \<le> sol_tilt s" "sol_tilt s \<le> 90"
  shows "\<bar>getSolarDeclination p day\<bar> \<le> tilt p
       \<and> \<bar>getDeclination s day\<bar> \<le> toRad (sol_tilt s)
       \<and> \<bar>toDeg (getDeclination s day)\<bar> \<le> sol_tilt s
       \<and> (tilt p = 0 \<longrightarrow> getSolarDeclination p day = 0)
       \<and> (sol_tilt s = 0 \<longrightarrow> getDeclination s day = 0)
       \<and> js_asin (sin (toRad (tilt p)) * sin (getSolarLongitude p day))
            = Fin (arcsin (sin (toRad (tilt p)) * sin (getSolarLongitude p day)))
       \<and> js_asin (sin (toRad (sol_tilt s)) * sin (toRad (360 * (day - 80) / 365)))
            = Fin (getDeclination s day)"
proof -
  have rp: "0 \<le> toRad (tilt p) \<and> toRad (tilt p) \<le> pi / 2"
    using assms(1,2) by (rule toRad_tilt_range)
  have rs: "0 \<le> toRad (sol_tilt s) \<and> toRad (sol_tilt s) \<le> pi / 2"
    using assms(3,4) by (rule toRad_tilt_range)
  have bp: "\<bar>arcsin (sin (toRad (tilt p)) * sin (getSolarLongitude p day))\<bar> \<le> toRad (tilt p)"
    using rp by (intro arcsin_sin_prod_bound) simp_all
  have bs: "\<bar>getDeclination s day\<bar> \<le> toRad (sol_tilt s)"
    unfolding getDeclination_def Let_def
    using rs by (intro arcsin_sin_prod_bound) simp_all
  have dp: "\<bar>getSolarDeclination p day\<bar> \<le> tilt p"
    unfolding getSolarDeclination_def Let_def using bp by (rule toDeg_abs_le)
  have ds: "\<bar>toDeg (getDeclination s day)\<bar> \<le> sol_tilt s"
    using bs by (rule toDeg_abs_le)
  have zp: "tilt p = 0 \<longrightarrow> getSolarDeclination p day = 0"
    using dp by auto
  have zs: "sol_tilt s = 0 \<longrightarrow> getDeclination s day = 0"
    using bs by (auto simp: toRad_def)
  have np: "js_asin (sin (toRad (tilt p)) * sin (getSolarLongitude p day))
            = Fin (arcsin (sin (toRad (tilt p)) * sin (getSolarLongitude p day)))"
    using sin_prod_range [of "toRad (tilt p)" "getSolarLongitude p day"]
    by (simp add: js_asin_def)
  have ns: "js_asin (sin (toRad (sol_tilt s)) * sin (toRad (360 * (day - 80) / 365)))
            = Fin (getDeclination s day)"
    using sin_prod_range [of "toRad (sol_tilt s)" "toRad (360 * (day - 80) / 365)"]
    by (simp add: js_asin_def getDeclination_def Let_def)
  from dp bs ds zp zs np ns show ?thesis by blast
qed

theorem declination_bounded_witness:
  "\<bar>getSolarDeclination default_params 172\<bar> \<le> 234 / 10
   \<and> \<bar>toDeg (getDeclination default_solograph 172)\<bar> \<le> 2344 / 100
   \<and> getSolarDeclination (default_params\<lparr>tilt := 0\<rparr>) 172 = 0
   \<and> getDeclination (default_solograph\<lparr>sol_tilt := 0\<rparr>) 172 = 0"
  using declination_bounded [of default_params default_solograph 172]
    declination_bounded [of "default_params\<lparr>tilt := 0\<rparr>" "default_solograph\<lparr>sol_tilt := 0\<rparr>" 172]
  by (simp add: default_params_def default_solograph_def)

section \<open>Sunrise and sunset\<close>

text \<open>On day 171.25 the solograph's angle from the spring equinox is a quarter turn, so the
  declination is the tilt itself; at latitude 89 (north or south) the product of the
  tangents then exceeds 1 in size. On day 80 the declination is 0.\<close>

lemma toRad_default_tilt_range:
  "0 < toRad (2344 / 100) \<and> toRad (2344 / 100) < pi / 2 \<and> toRad 1 < toRad (2344 / 100)
   \<and> 0 < toRad 1"
  using pi_gt_zero by (simp add: toRad_def)

lemma solstice_declination:
  assumes "sol_tilt s = 2344 / 100"
  shows "getDeclination s (685 / 4) = toRad (2344 / 100)"
proof -
  have t: "toRad (360 * (685 / 4 - 80) / 365) = pi / 2"
    by (simp add: toRad_def)
  have "getDeclination s (685 / 4) = arcsin (sin (toRad (2344 / 100)))"
    unfolding getDeclination_def Let_def assms t by (simp only: sin_pi_half mult_1_right)
  also have "\<dots> = toRad (2344 / 100)"
    using toRad_default_tilt_range by (intro arcsin_sin) linarith+
  finally show ?thesis .
qed

lemma tan_89: "tan (toRad 89) = inverse (tan (toRad 1))"
proof -
  have "toRad 89 = pi / 2 - toRad 1" by (simp add: toRad_def)
  then show ?thesis by (simp add: tan_cot)
qed

lemma tan_ratio_gt_1: "1 < tan (toRad 89) * tan (toRad (2344 / 100))"
proof -
  have p: "0 < tan (toRad 1)"
    using toRad_default_tilt_range by (intro tan_gt_zero) linarith+
  have "tan (toRad 1) < tan (toRad (2344 / 100))"
    using toRad_default_tilt_range by (intro tan_monotone) linarith+
  then have "1 < tan (toRad (2344 / 100)) / tan (toRad 1)"
    using p by simp
  then show ?thesis by (simp add: tan_89 field_simps)
qed

lemma cosHa_polar_north:
  "- tan (toRad (sol_latitude polar_north)) * tan (getDeclination polar_north (685 / 4)) < - 1"
proof -
  have "sol_tilt polar_north = 2344 / 100"
    by (simp add: polar_north_def default_solograph_def)
  then have d: "getDeclination polar_north (685 / 4) = toRad (2344 / 100)"
    by (rule solstice_declination)
  have lat: "sol_latitude polar_north = 89"
    by (simp add: polar_north_def)
  show ?thesis
    unfolding lat d using tan_ratio_gt_1 by simp
qed

lemma cosHa_polar_south:
  "1 < - tan (toRad (sol_latitude polar_south)) * tan (getDeclination polar_south (685 / 4))"
proof -
  have "sol_tilt polar_south = 2344 / 100"
    by (simp add: polar_south_def default_solograph_def)
  then have d: "getDeclination polar_south (685 / 4) = toRad (2344 / 100)"
    by (rule solstice_declination)
  have lat: "sol_latitude polar_south = - 89"
    by (simp add: polar_south_def)
  have "toRad (- 89) = - toRad 89" by (simp add: toRad_def)
  then show ?thesis
    unfolding lat d using tan_ratio_gt_1 by simp
qed

lemma cosHa_equinox:
  "- tan (toRad (sol_latitude default_solograph)) * tan (getDeclination default_solograph 80) = 0"
  by (simp add: getDeclination_def toRad_def)

lemma hour_angle_range:
  assumes "- 1 \<le> c" "c \<le> 1"
  shows "0 \<le> toDeg (arccos c) / 15 \<and> toDeg (arccos c) / 15 \<le> 12"
proof -
  have "0 \<le> arccos c" "arccos c \<le> pi"
    using assms by (simp_all add: arccos_lbound arccos_ubound)
  then have "0 \<le> 12 * arccos c / pi" "12 * arccos c / pi \<le> 12"
    using pi_gt_zero by (simp_all add: pos_divide_le_eq)
  then show ?thesis by (simp add: toDeg_def)
qed

text \<open>
  C2. With \<open>cosHa = - tan(latitude) * tan(declination)\<close>, \<open>getSunTimes\<close> returns sunrise 0,
  sunset 24, day length 24 and \<open>neverSets\<close> true when \<open>cosHa < -1\<close>; sunrise 12, sunset
  12, day length 0 and \<open>neverRises\<close> true when \<open>cosHa > 1\<close>; and otherwise sunrise
  \<open>12 - Ha\<close> and sunset \<open>12 + Ha\<close> with \<open>Ha = toDeg (acos cosHa) / 15\<close> and no flag. Whenever
  neither flag is set, sunrise + sunset = 24 and the day length is sunset - sunrise and
  lies in \<open>[0, 24]\<close>. (Where the latitude is exactly 90 or -90 the tangent has no real
  value and \<^term>\<open>tan\<close> is 0; the statement is about \<open>cosHa\<close> whatever its value is.)
\<close>

theorem getSunTimes_policy:
  "(let cosHa = - tan (toRad (sol_latitude s)) * tan (getDeclination s day);
        r = getSunTimes s day;
        Ha = toDeg (arccos cosHa) / 15
    in (cosHa < - 1 \<longrightarrow>
          sunrise r = 0 \<and> sunset r = 24 \<and> dayLength r = 24 \<and> neverSets r = Some True)
     \<and> (1 < cosHa \<longrightarrow>
          sunrise r = 12 \<and> sunset r = 12 \<and> dayLength r = 0 \<and> neverRises r = Some True)
     \<and> (- 1 \<le> cosHa \<and> cosHa \<le> 1 \<longrightarrow>
          sunrise r = 12 - Ha \<and> sunset r = 12 + Ha \<and> neverSets r = None
          \<and> neverRises r = None)
     \<and> (neverSets r = None \<and> neverRises r = None \<longrightarrow>
          sunrise r + sunset r = 24 \<and> dayLength r = sunset r - sunrise r
          \<and> 0 \<le> dayLength r \<and> dayLength r \<le> 24))"
proof -
  define c where "c = - tan (toRad (sol_latitude s)) * tan (getDeclination s day)"
  have r: "- 1 \<le> c \<Longrightarrow> c \<le> 1 \<Longrightarrow>
      0 \<le> toDeg (arccos c) / 15 \<and> toDeg (arccos c) / 15 \<le> 12"
    by (rule hour_angle_range)
  consider "c < - 1" | "1 < c" | "- 1 \<le> c \<and> c \<le> 1" by linarith
  then show ?thesis
  proof cases
    case 1
    then show ?thesis
      unfolding getSunTimes_def Let_def c_def [symmetric] by simp
  next
    case 2
    then show ?thesis
      unfolding getSunTimes_def Let_def c_def [symmetric] by simp
  next
    case 3
    with r have "0 \<le> toDeg (arccos c) / 15 \<and> toDeg (arccos c) / 15 \<le> 12" by blast
    with 3 show ?thesis
      unfolding getSunTimes_def Let_def c_def [symmetric] by simp
  qed
qed

theorem getSunTimes_policy_witness:
  "sunrise (getSunTimes default_solograph 80) = 6
   \<and> sunset (getSunTimes default_solograph 80) = 18
   \<and> dayLength (getSunTimes default_solograph 80) = 12
   \<and> sunrise (getSunTimes polar_north (685 / 4)) = 0
   \<and> sunset (getSunTimes polar_north (685 / 4)) = 24
   \<and> dayLength (getSunTimes polar_north (685 / 4)) = 24
   \<and> neverSets (getSunTimes polar_north (685 / 4)) = Some True
   \<and> sunrise (getSunTimes polar_south (685 / 4)) = 12
   \<and> sunset (getSunTimes polar_south (685 / 4)) = 12
   \<and> dayLength (getSunTimes polar_south (685 / 4)) = 0
   \<and> neverRises (getSunTimes polar_south (685 / 4)) = Some True"
proof -
  have e: "toDeg (arccos 0) / 15 = 6" by (simp add: toDeg_def)
  have a: "sunrise (getSunTimes default_solograph 80) = 6
   \<and> sunset (getSunTimes default_solograph 80) = 18
   \<and> dayLength (getSunTimes default_solograph 80) = 12"
    using getSunTimes_policy [of default_solograph 80]
    unfolding Let_def cosHa_equinox e by simp
  have b: "sunrise (getSunTimes polar_north (685 / 4)) = 0
   \<and> sunset (getSunTimes polar_north (685 / 4)) = 24
   \<and> dayLength (getSunTimes polar_north (685 / 4)) = 24
   \<and> neverSets (getSunTimes polar_north (685 / 4)) = Some True"
    using getSunTimes_policy [of polar_north "685 / 4"] cosHa_polar_north
    unfolding Let_def by blast
  have c: "sunrise (getSunTimes polar_south (685 / 4)) = 12
   \<and> sunset (getSunTimes polar_south (685 / 4)) = 12
   \<and> dayLength (getSunTimes polar_south (685 / 4)) = 0
   \<and> neverRises (getSunTimes polar_south (685 / 4)) = Some True"
    using getSunTimes_policy [of polar_south "685 / 4"] cosHa_polar_south
    unfolding Let_def by blast
  from a b c show ?thesis by blast
qed

text \<open>
  C10. Only the branch taken contributes its flag: the midnight-sun result has \<open>neverSets\<close>
  and no \<open>neverRises\<close> field, the polar-night result has \<open>neverRises\<close> and no
  \<open>neverSets\<close> field, and the ordinary result has neither field (absent, not false).
\<close>

theorem getSunTimes_fields:
  "(let cosHa = - tan (toRad (sol_latitude s)) * tan (getDeclination s day);
        r = getSunTimes s day
    in (cosHa < - 1 \<longrightarrow> neverSets r = Some True \<and> neverRises r = None)
     \<and> (1 < cosHa \<longrightarrow> neverRises r = Some True \<and> neverSets r = None)
     \<and> (- 1 \<le> cosHa \<and> cosHa \<le> 1 \<longrightarrow> neverRises r = None \<and> neverSets r = None))"
  by (simp add: getSunTimes_def Let_def)

theorem getSunTimes_fields_witness:
  "neverSets (getSunTimes default_solograph 80) = None
   \<and> neverRises (getSunTimes default_solograph 80) = None
   \<and> neverSets (getSunTimes polar_north (685 / 4)) = Some True
   \<and> neverRises (getSunTimes polar_north (685 / 4)) = None
   \<and> neverRises (getSunTimes polar_south (685 / 4)) = Some True
   \<and> neverSets (getSunTimes polar_south (685 / 4)) = None"
proof -
  have a: "neverSets (getSunTimes default_solograph 80) = None
   \<and> neverRises (getSunTimes default_solograph 80) = None"
    using getSunTimes_fields [of default_solograph 80]
    unfolding Let_def cosHa_equinox by simp
  have b: "neverSets (getSunTimes polar_north (685 / 4)) = Some True
   \<and> neverRises (getSunTimes polar_north (685 / 4)) = None"
    using getSunTimes_fields [of polar_north "685 / 4"] cosHa_polar_north
    unfolding Let_def by blast
  have c: "neverRises (getSunTimes polar_south (685 / 4)) = Some True
   \<and> neverSets (getSunTimes polar_south (685 / 4)) = None"
    using getSunTimes_fields [of polar_south "685 / 4"] cosHa_polar_south
    unfolding Let_def by blast
  from a b c show ?thesis by blast
qed

section \<open>Traces\<close>

lemma getSunPath_loop_eq:
  "getSunPath_loop s d m pts =
     pts @ map (\<lambda>k. sunPathPoint s d (m + 5 * k)) [0..<(1444 - m) div 5]"
proof (induction s d m pts rule: getSunPath_loop.induct)
  case (1 s d m pts)
  show ?case
  proof (cases "m < 24 * 60")
    case True
    then have n: "(1444 - m) div 5 = Suc ((1444 - (m + 5)) div 5)"
      by simp
    have step: "getSunPath_loop s d m pts =
        getSunPath_loop s d (m + 5) (pts @ [sunPathPoint s d m])"
      using True by (subst getSunPath_loop.simps) (simp add: sunPathPoint_def Let_def)
    have "getSunPath_loop s d (m + 5) (pts @ [sunPathPoint s d m]) =
        (pts @ [sunPathPoint s d m]) @
          map (\<lambda>k. sunPathPoint s d (m + 5 + 5 * k)) [0..<(1444 - (m + 5)) div 5]"
      using "1.IH" [OF True refl refl refl] by (simp add: sunPathPoint_def Let_def)
    then show ?thesis
      unfolding step n map_upt_Suc by (simp add: add.assoc)
  next
    case False
    then have "(1444 - m) div 5 = 0" by simp
    moreover have "getSunPath_loop s d m pts = pts"
      using False by (subst getSunPath_loop.simps) simp
    ultimately show ?thesis by simp
  qed
qed

lemma trace_day_loop_eq:
  "trace_day_loop s h d tr =
     tr @ map (\<lambda>k. hourTracePoint s h (d + k)) [0..<366 - d]"
proof (induction s h d tr rule: trace_day_loop.induct)
  case (1 s h d tr)
  show ?case
  proof (cases "d \<le> 365")
    case True
    then have n: "366 - d = Suc (366 - (d + 1))"
      by simp
    have step: "trace_day_loop s h d tr =
        trace_day_loop s h (d + 1) (tr @ [hourTracePoint s h d])"
      using True by (subst trace_day_loop.simps) (simp add: hourTracePoint_def Let_def)
    have "trace_day_loop s h (d + 1) (tr @ [hourTracePoint s h d]) =
        (tr @ [hourTracePoint s h d]) @
          map (\<lambda>k. hourTracePoint s h (d + 1 + k)) [0..<366 - (d + 1)]"
      using "1.IH" [OF True refl refl refl] by (simp add: hourTracePoint_def Let_def)
    then show ?thesis
      unfolding step n map_upt_Suc by simp
  next
    case False
    then have "366 - d = 0" by simp
    moreover have "trace_day_loop s h d tr = tr"
      using False by (subst trace_day_loop.simps) simp
    ultimately show ?thesis by simp
  qed
qed

lemma trace_hour_loop_eq:
  "trace_hour_loop s h traces =
     (\<lambda>x. if h \<le> x \<and> x \<le> 19 then Some (trace_day_loop s x 1 []) else traces x)"
proof (induction s h traces rule: trace_hour_loop.induct)
  case (1 s h traces)
  show ?case
  proof (cases "h \<le> 19")
    case True
    have "trace_hour_loop s h traces =
        trace_hour_loop s (h + 1) (traces(h \<mapsto> trace_day_loop s h 1 []))"
      using True by (subst trace_hour_loop.simps) simp
    also have "\<dots> = (\<lambda>x. if h + 1 \<le> x \<and> x \<le> 19 then Some (trace_day_loop s x 1 [])
        else (traces(h \<mapsto> trace_day_loop s h 1 [])) x)"
      using "1.IH" [OF True] .
    also have "\<dots> = (\<lambda>x. if h \<le> x \<and> x \<le> 19 then Some (trace_day_loop s x 1 [])
        else traces x)"
      using True by (auto simp: fun_eq_iff)
    finally show ?thesis .
  next
    case False
    have "trace_hour_loop s h traces = traces"
      using False by (subst trace_hour_loop.simps) simp
    then show ?thesis using False by (auto simp: fun_eq_iff)
  qed
qed

lemma hourTraces_eq:
  "sol_hourTraces (initializeHourTraces s) hour =
     (if 5 \<le> hour \<and> hour \<le> 19
      then Some (map (\<lambda>k. hourTracePoint s hour (1 + k)) [0..<365]) else None)"
  by (simp add: initializeHourTraces_def trace_hour_loop_eq trace_day_loop_eq)

lemma getSunPath_eq:
  "getSunPath s day = map (\<lambda>k. sunPathPoint s (getDeclination s day) (5 * k)) [0..<288]"
  by (simp add: getSunPath_def getSunPath_loop_eq)

lemma sorted_wrt_map_upt:
  assumes "\<And>i j. i < j \<Longrightarrow> j < n \<Longrightarrow> f i < (f j :: real)"
  shows "sorted_wrt (<) (map f [0..<n])"
  using assms by (simp add: sorted_wrt_iff_nth_less)

text \<open>
  C9. \<open>getSunPath\<close> returns exactly 288 points; their hours are \<open>0, 5/60, 10/60, \<dots>\<close> in
  this order (the \<open>k\<close>-th is \<open>5k/60\<close>), strictly increasing. \<open>initializeHourTraces\<close> stores
  for every hour from 5 to 19 a trace of exactly 365 entries whose days are 1, 2, ..., 365
  in this order.
\<close>

theorem trace_lengths:
  "length (getSunPath s day) = 288
   \<and> map pp_hour (getSunPath s day) = map (\<lambda>k. real (5 * k) / 60) [0..<288]
   \<and> sorted_wrt (<) (map pp_hour (getSunPath s day))
   \<and> (\<forall>hour\<in>{5..19}. \<exists>trace. sol_hourTraces (initializeHourTraces s) hour = Some trace
         \<and> length trace = 365 \<and> map tr_day trace = [1..<366])"
proof -
  have len: "length (getSunPath s day) = 288"
    by (simp add: getSunPath_eq)
  have hours: "map pp_hour (getSunPath s day) = map (\<lambda>k. real (5 * k) / 60) [0..<288]"
    by (simp add: getSunPath_eq sunPathPoint_def Let_def)
  have inc: "sorted_wrt (<) (map pp_hour (getSunPath s day))"
    unfolding hours by (rule sorted_wrt_map_upt) simp
  have days: "map tr_day (map (\<lambda>k. hourTracePoint s hour (1 + k)) [0..<365]) = [1..<366]"
    for hour
  proof -
    have "map tr_day (map (\<lambda>k. hourTracePoint s hour (1 + k)) [0..<365])
        = map (\<lambda>k. k + 1) [0..<365]"
      by (simp add: hourTracePoint_def Let_def)
    also have "\<dots> = [1..<365 + 1]" by (rule map_add_upt)
    finally show ?thesis by simp
  qed
  have traces: "\<forall>hour\<in>{5..19}. \<exists>trace. sol_hourTraces (initializeHourTraces s) hour = Some trace
         \<and> length trace = 365 \<and> map tr_day trace = [1..<366]"
    using days by (simp add: hourTraces_eq)
  from len hours inc traces show ?thesis by blast
qed

theorem trace_lengths_witness:
  "length (getSunPath default_solograph 172) = 288
   \<and> (\<exists>trace. sol_hourTraces (initializeHourTraces default_solograph) 12 = Some trace
         \<and> length trace = 365 \<and> map tr_day trace = [1..<366])"
proof -
  have "(12::nat) \<in> {5..19}" by simp
  with trace_lengths [of default_solograph 172] show ?thesis by blast
qed

section \<open>Horizontal coordinates\<close>




lemma toRad_latitude_range:
  assumes "- 90 \<le> l" "l \<le> 90"
  shows "- (pi / 2) \<le> toRad l \<and> toRad l \<le> pi / 2"
proof -
  have "(- 90) * pi \<le> l * pi"
    using assms(1) pi_ge_zero by (rule mult_right_mono)
  moreover have "l * pi \<le> 90 * pi"
    using assms(2) pi_ge_zero by (rule mult_right_mono)
  ultimately show ?thesis by (simp add: toRad_def)
qed

lemma cos_arcsin_clamp_nonneg: "0 \<le> cos (arcsin (max (- 1) (min 1 x)))"
proof -
  have "- 1 \<le> max (- 1) (min 1 x)" "max (- 1) (min 1 x) \<le> (1::real)" by simp_all
  then have "- (pi / 2) \<le> arcsin (max (- 1) (min 1 x)) \<and> arcsin (max (- 1) (min 1 x)) \<le> pi / 2"
    by (rule arcsin_bounded)
  then show ?thesis by (intro cos_ge_zero) blast+
qed

lemma unit_vectors_diff:
  fixes a b p q m n :: real
  assumes "a\<^sup>2 + b\<^sup>2 = 1" "p\<^sup>2 + q\<^sup>2 = 1" "m\<^sup>2 + n\<^sup>2 = 1"
  shows "(b * q - n)\<^sup>2 + (b * p)\<^sup>2 + (a - m)\<^sup>2 = 2 - 2 * (a * m + b * n * q)"
proof -
  have "(b * q - n)\<^sup>2 + (b * p)\<^sup>2 + (a - m)\<^sup>2
      = b\<^sup>2 * (p\<^sup>2 + q\<^sup>2) + a\<^sup>2 + (m\<^sup>2 + n\<^sup>2) - 2 * (a * m + b * n * q)"
    by (simp add: power2_eq_square algebra_simps)
  also have "\<dots> = (a\<^sup>2 + b\<^sup>2) + 1 - 2 * (a * m + b * n * q)"
    unfolding assms(2,3) by simp
  finally show ?thesis unfolding assms(1) by simp
qed

lemma unit_vectors_sum:
  fixes a b p q m n :: real
  assumes "a\<^sup>2 + b\<^sup>2 = 1" "p\<^sup>2 + q\<^sup>2 = 1" "m\<^sup>2 + n\<^sup>2 = 1"
  shows "(b * q + n)\<^sup>2 + (b * p)\<^sup>2 + (a + m)\<^sup>2 = 2 + 2 * (a * m + b * n * q)"
proof -
  have "(b * q + n)\<^sup>2 + (b * p)\<^sup>2 + (a + m)\<^sup>2
      = b\<^sup>2 * (p\<^sup>2 + q\<^sup>2) + a\<^sup>2 + (m\<^sup>2 + n\<^sup>2) + 2 * (a * m + b * n * q)"
    by (simp add: power2_eq_square algebra_simps)
  also have "\<dots> = (a\<^sup>2 + b\<^sup>2) + 1 + 2 * (a * m + b * n * q)"
    unfolding assms(2,3) by simp
  finally show ?thesis unfolding assms(1) by simp
qed

lemma sinAlt_diff:
  fixes d h l :: real
  shows "(cos d * cos h - cos l)\<^sup>2 + (cos d * sin h)\<^sup>2 + (sin d - sin l)\<^sup>2
     = 2 - 2 * (sin d * sin l + cos d * cos l * cos h)"
  by (rule unit_vectors_diff) simp_all

lemma sinAlt_sum:
  fixes d h l :: real
  shows "(cos d * cos h + cos l)\<^sup>2 + (cos d * sin h)\<^sup>2 + (sin d + sin l)\<^sup>2
     = 2 + 2 * (sin d * sin l + cos d * cos l * cos h)"
  by (rule unit_vectors_sum) simp_all

lemma half_bounds:
  fixes S :: real
  shows "0 \<le> 2 - 2 * S \<Longrightarrow> S \<le> 1" and "0 \<le> 2 + 2 * S \<Longrightarrow> - 1 \<le> S"
  by simp_all

lemma sinAlt_range:
  fixes d h l :: real
  shows "- 1 \<le> sin d * sin l + cos d * cos l * cos h
   \<and> sin d * sin l + cos d * cos l * cos h \<le> 1"
proof -
  have "0 \<le> (cos d * cos h - cos l)\<^sup>2 + (cos d * sin h)\<^sup>2 + (sin d - sin l)\<^sup>2"
    by (intro add_nonneg_nonneg zero_le_power2)
  then have up: "sin d * sin l + cos d * cos l * cos h \<le> 1"
    unfolding sinAlt_diff by (rule half_bounds)
  have "0 \<le> (cos d * cos h + cos l)\<^sup>2 + (cos d * sin h)\<^sup>2 + (sin d + sin l)\<^sup>2"
    by (intro add_nonneg_nonneg zero_le_power2)
  then have lo: "- 1 \<le> sin d * sin l + cos d * cos l * cos h"
    unfolding sinAlt_sum by (rule half_bounds)
  from lo up show ?thesis ..
qed

lemma three_squares_zero:
  fixes x y z :: real
  assumes "x\<^sup>2 + y\<^sup>2 + z\<^sup>2 = 0"
  shows "x = 0 \<and> y = 0 \<and> z = 0"
proof -
  have "0 \<le> x\<^sup>2" "0 \<le> y\<^sup>2" "0 \<le> z\<^sup>2" by simp_all
  with assms have "x\<^sup>2 = 0 \<and> y\<^sup>2 = 0 \<and> z\<^sup>2 = 0" by linarith
  then show ?thesis by simp
qed

text \<open>At the zenith and at the nadir both numerators of the azimuth vanish.\<close>

lemma zenith_numerators:
  fixes d h l :: real
  assumes "sin d * sin l + cos d * cos l * cos h = 1"
  shows "sin h * cos d = 0 \<and> sin d - sin l * 1 = 0"
proof -
  have "(cos d * cos h - cos l)\<^sup>2 + (cos d * sin h)\<^sup>2 + (sin d - sin l)\<^sup>2 = 0"
    unfolding sinAlt_diff assms by simp
  then have "cos d * sin h = 0 \<and> sin d - sin l = 0"
    using three_squares_zero by blast
  then show ?thesis by (simp add: mult.commute)
qed

lemma nadir_numerators:
  fixes d h l :: real
  assumes "sin d * sin l + cos d * cos l * cos h = - 1"
  shows "sin h * cos d = 0 \<and> sin d - sin l * (- 1) = 0"
proof -
  have "(cos d * cos h + cos l)\<^sup>2 + (cos d * sin h)\<^sup>2 + (sin d + sin l)\<^sup>2 = 0"
    unfolding sinAlt_sum assms by simp
  then have "cos d * sin h = 0 \<and> sin d + sin l = 0"
    using three_squares_zero by blast
  then show ?thesis by (simp add: mult.commute)
qed

lemma cos_arcsin_zero:
  assumes "- 1 \<le> x" "x \<le> 1" "cos (arcsin x) = 0"
  shows "x = 1 \<or> x = - 1"
proof (rule ccontr)
  assume "\<not> (x = 1 \<or> x = - 1)"
  with assms(1,2) have "- 1 < x" "x < 1" by simp_all
  then have "cos (arcsin x) \<noteq> 0" by (rule cos_arcsin_nonzero)
  with assms(3) show False by simp
qed

lemma clamp_id:
  fixes x :: real
  assumes "- 1 \<le> x" "x \<le> 1"
  shows "max (- 1) (min 1 x) = x"
  using assms by simp

lemma solograph_position:
  fixes hourAngle declination latitude :: real
  assumes lat: "- 90 \<le> latitude" "latitude \<le> 90"
  defines "ha \<equiv> toRad (hourAngle * 15)"
    and "la \<equiv> toRad latitude"
  defines "sinAlt \<equiv> sin declination * sin la + cos declination * cos la * cos ha"
  defines "alt \<equiv> arcsin (max (- 1) (min 1 sinAlt))"
  shows "1 / 10000 \<le> cos la * cos alt + 1 / 10000"
    and "1 / 10000 \<le> cos alt + 1 / 10000"
    and "equatorialToHorizontal hourAngle declination latitude =
      \<lparr>altitude = Fin (toDeg alt),
       azimuth = Fin (toDeg (real_atan2 (- sin ha * cos declination / (cos alt + 1 / 10000))
         ((sin declination - sin la * sinAlt) / (cos la * cos alt + 1 / 10000))))\<rparr>"
    and "cos alt = 0 \<Longrightarrow> - sin ha * cos declination = 0 \<and> sin declination - sin la * sinAlt = 0"
proof -
  have "- (pi / 2) \<le> la \<and> la \<le> pi / 2"
    unfolding la_def using lat by (rule toRad_latitude_range)
  then have cl: "0 \<le> cos la" by (intro cos_ge_zero) blast+
  have ca: "0 \<le> cos alt"
    unfolding alt_def by (rule cos_arcsin_clamp_nonneg)
  from cl ca have "0 \<le> cos la * cos alt" by (rule mult_nonneg_nonneg)
  then show d1: "1 / 10000 \<le> cos la * cos alt + 1 / 10000" by simp
  from ca show d2: "1 / 10000 \<le> cos alt + 1 / 10000" by simp
  from d1 have n1: "cos la * cos alt + 1 / 10000 \<noteq> 0" by linarith
  from d2 have n2: "cos alt + 1 / 10000 \<noteq> 0" by linarith
  show "equatorialToHorizontal hourAngle declination latitude =
      \<lparr>altitude = Fin (toDeg alt),
       azimuth = Fin (toDeg (real_atan2 (- sin ha * cos declination / (cos alt + 1 / 10000))
         ((sin declination - sin la * sinAlt) / (cos la * cos alt + 1 / 10000))))\<rparr>"
    unfolding equatorialToHorizontal_def Let_def
      ha_def [symmetric] la_def [symmetric] sinAlt_def [symmetric] alt_def [symmetric]
    using n1 n2 by (simp add: js_div_def)
  have r: "- 1 \<le> sinAlt \<and> sinAlt \<le> 1"
    unfolding sinAlt_def by (rule sinAlt_range)
  then have al: "alt = arcsin sinAlt"
    unfolding alt_def by (simp add: clamp_id)
  show "- sin ha * cos declination = 0 \<and> sin declination - sin la * sinAlt = 0"
    if z: "cos alt = 0"
  proof -
    from r z have "sinAlt = 1 \<or> sinAlt = - 1"
      unfolding al by (intro cos_arcsin_zero) blast+
    then show ?thesis
    proof
      assume one: "sinAlt = 1"
      then have "sin ha * cos declination = 0 \<and> sin declination - sin la * 1 = 0"
        unfolding sinAlt_def by (rule zenith_numerators)
      then show ?thesis unfolding one by simp
    next
      assume mone: "sinAlt = - 1"
      then have "sin ha * cos declination = 0 \<and> sin declination - sin la * (- 1) = 0"
        unfolding sinAlt_def by (rule nadir_numerators)
      then show ?thesis unfolding mone by simp
    qed
  qed
qed

lemma js_atan2_NaN_right: "js_atan2 y NaN = NaN"
  by (cases y) simp_all

lemma sky_position:
  fixes hourAngle declination latitude :: real
  defines "ha \<equiv> toRad (hourAngle * 15)"
    and "la \<equiv> toRad latitude"
  defines "sinAlt \<equiv> sin declination * sin la + cos declination * cos la * cos ha"
  shows "altitude (equatorialToHorizontal_sky hourAngle declination latitude)
      = Fin (toDeg (arcsin sinAlt))"
    and "cos la * cos (arcsin sinAlt) \<noteq> 0 \<Longrightarrow>
      azimuth (equatorialToHorizontal_sky hourAngle declination latitude) =
        Fin (toDeg (real_atan2 (- sin ha * cos declination / cos (arcsin sinAlt))
         ((sin declination - sin la * sinAlt) / (cos la * cos (arcsin sinAlt)))))"
    and "cos la * cos (arcsin sinAlt) = 0 \<Longrightarrow> sin declination - sin la * sinAlt = 0 \<Longrightarrow>
      azimuth (equatorialToHorizontal_sky hourAngle declination latitude) = NaN"
proof -
  have r: "- 1 \<le> sinAlt \<and> sinAlt \<le> 1"
    unfolding sinAlt_def by (rule sinAlt_range)
  then have a: "js_asin sinAlt = Fin (arcsin sinAlt)"
    by (simp add: js_asin_def)
  show "altitude (equatorialToHorizontal_sky hourAngle declination latitude)
      = Fin (toDeg (arcsin sinAlt))"
    unfolding equatorialToHorizontal_sky_def Let_def
      ha_def [symmetric] la_def [symmetric] sinAlt_def [symmetric] a
    by simp
  show "azimuth (equatorialToHorizontal_sky hourAngle declination latitude) =
        Fin (toDeg (real_atan2 (- sin ha * cos declination / cos (arcsin sinAlt))
         ((sin declination - sin la * sinAlt) / (cos la * cos (arcsin sinAlt)))))"
    if "cos la * cos (arcsin sinAlt) \<noteq> 0"
    unfolding equatorialToHorizontal_sky_def Let_def
      ha_def [symmetric] la_def [symmetric] sinAlt_def [symmetric] a
    using that by (simp add: js_div_def)
  show "azimuth (equatorialToHorizontal_sky hourAngle declination latitude) = NaN"
    if "cos la * cos (arcsin sinAlt) = 0" "sin declination - sin la * sinAlt = 0"
    unfolding equatorialToHorizontal_sky_def Let_def
      ha_def [symmetric] la_def [symmetric] sinAlt_def [symmetric] a
    using that by (simp add: js_div_def js_atan2_NaN_right)
qed




section \<open>The hour angle in the sky view and in the solograph\<close>

text \<open>Day 80 in the sky view: the mean longitude is 0, so only the eccentricity effect is
  left in the equation of time, and it is negative.\<close>

lemma js_rem_442: "js_rem 442 365 = 77"
  by (simp add: js_rem_def js_trunc_def)

lemma sky_mean_anomaly_80: "getMeanAnomaly_sky default_sky 80 = 154 * pi / 365"
  unfolding getMeanAnomaly_sky_def Let_def
  by (simp add: default_sky_def js_rem_442 toRad_def)

lemma sin_pos_frac:
  assumes "0 < a" "a < b"
  shows "0 < sin (a * pi / b)"
proof -
  have "0 < a * pi / b" using assms pi_gt_zero by simp
  moreover have "a * pi / b < pi"
    using assms pi_gt_zero by (simp add: pos_divide_less_eq)
  ultimately show ?thesis by (rule sin_gt_zero)
qed

lemma sky_eot_80:
  "getEquationOfTime_sky default_sky 80 < 0 \<and> - 12 < getEquationOfTime_sky default_sky 80"
proof -
  define e :: real where "e = 167 / 10000"
  define M :: real where "M = 154 * pi / 365"
  have s1: "0 < sin M" unfolding M_def by (rule sin_pos_frac) simp_all
  have M2: "2 * M = 308 * pi / 365" by (simp add: M_def)
  have s2: "0 < sin (2 * M)" unfolding M2 by (rule sin_pos_frac) simp_all
  define ecc where "ecc = - 2 * e * sin M - (125 / 100) * e * e * sin (2 * M)"
  have eot: "getEquationOfTime_sky default_sky 80 = ecc * 24 / (2 * pi)"
    unfolding getEquationOfTime_sky_def Let_def sky_mean_anomaly_80
    by (simp add: default_sky_def toRad_def ecc_def e_def M_def)
  have epos: "0 < e" by (simp add: e_def)
  have "0 < 2 * e * sin M" using epos s1 by simp
  moreover have "0 < (125 / 100) * e * e * sin (2 * M)" using epos s2 by simp
  ultimately have neg: "ecc < 0" unfolding ecc_def by linarith
  have "2 * e * sin M \<le> 2 * e * 1"
    using epos by (intro mult_left_mono) simp_all
  moreover have "(125 / 100) * e * e * sin (2 * M) \<le> (125 / 100) * e * e * 1"
    using epos by (intro mult_left_mono) simp_all
  ultimately have "- (2 * e + (125 / 100) * e * e) \<le> ecc"
    unfolding ecc_def by linarith
  moreover have "- 1 < - (2 * e + (125 / 100) * e * e)" by (simp add: e_def)
  ultimately have "- pi < ecc" using pi_ge_two by linarith
  then have "- 12 * (2 * pi) < ecc * 24" by linarith
  then have lo: "- 12 < ecc * 24 / (2 * pi)"
    using pi_gt_zero by (simp add: pos_less_divide_eq)
  have "ecc * 24 < 0" using neg by simp
  then have hi: "ecc * 24 / (2 * pi) < 0"
    using pi_gt_zero by (simp add: divide_neg_pos)
  from lo hi show ?thesis unfolding eot by blast
qed

lemma real_atan2_pos:
  assumes "0 < y"
  shows "0 < real_atan2 y x \<and> real_atan2 y x < pi"
proof -
  have b: "- (pi / 2) < arctan (y / x)" "arctan (y / x) < pi / 2"
    by (rule arctan_lbound, rule arctan_ubound)
  consider "0 < x" | "x < 0" | "x = 0" by linarith
  then show ?thesis
  proof cases
    case 1
    with assms have "0 < y / x" by simp
    then have "0 < arctan (y / x)" by simp
    moreover from 1 have "real_atan2 y x = arctan (y / x)" by (simp add: real_atan2_def)
    ultimately show ?thesis using b pi_gt_zero by linarith
  next
    case 2
    with assms have "y / x < 0" by (simp add: divide_pos_neg)
    then have "arctan (y / x) < 0" by simp
    moreover from 2 assms have "real_atan2 y x = arctan (y / x) + pi"
      by (simp add: real_atan2_def)
    ultimately show ?thesis using b pi_gt_zero by linarith
  next
    case 3
    with assms have "real_atan2 y x = pi / 2" by (simp add: real_atan2_def)
    then show ?thesis using pi_gt_zero by linarith
  qed
qed

lemma real_atan2_zero: "real_atan2 0 x = 0 \<or> real_atan2 0 x = pi"
  by (simp add: real_atan2_def)

lemma toDeg_pos_range:
  assumes "0 < r" "r < pi"
  shows "0 < toDeg r \<and> toDeg r < 180"
proof -
  have "r * 180 < 180 * pi" using assms by simp
  then have "r * 180 / pi < 180"
    using pi_gt_zero by (simp add: pos_divide_less_eq)
  moreover have "0 < r * 180 / pi" using assms pi_gt_zero by simp
  ultimately show ?thesis by (simp add: toDeg_def)
qed

lemma toDeg_pi: "toDeg pi = 180" and toDeg_0: "toDeg 0 = 0"
  by (simp_all add: toDeg_def)

text \<open>A zero denominator of \<open>cosAz\<close> comes with a zero numerator.\<close>

lemma zero_denominator_numerator:
  fixes d h l :: real
  defines "sinAlt \<equiv> sin d * sin l + cos d * cos l * cos h"
  assumes z: "cos l * cos (arcsin sinAlt) = 0"
  shows "sin d - sin l * sinAlt = 0"
proof -
  have r: "- 1 \<le> sinAlt \<and> sinAlt \<le> 1"
    unfolding sinAlt_def by (rule sinAlt_range)
  from z consider "cos (arcsin sinAlt) = 0" | "cos l = 0" by auto
  then show ?thesis
  proof cases
    case 1
    with r have "sinAlt = 1 \<or> sinAlt = - 1"
      by (intro cos_arcsin_zero) blast+
    then show ?thesis
    proof
      assume one: "sinAlt = 1"
      then have "sin h * cos d = 0 \<and> sin d - sin l * 1 = 0"
        unfolding sinAlt_def by (rule zenith_numerators)
      then show ?thesis unfolding one by simp
    next
      assume mone: "sinAlt = - 1"
      then have "sin h * cos d = 0 \<and> sin d - sin l * (- 1) = 0"
        unfolding sinAlt_def by (rule nadir_numerators)
      then show ?thesis unfolding mone by simp
    qed
  next
    case 2
    have "(sin l)\<^sup>2 + (cos l)\<^sup>2 = 1" by simp
    with 2 have sq: "sin l * sin l = 1" by (simp add: power2_eq_square)
    have "sin d - sin l * sinAlt = sin d - sin d * (sin l * sin l)"
      unfolding sinAlt_def using 2 by (simp add: algebra_simps)
    then show ?thesis unfolding sq by simp
  qed
qed

lemma sky_azimuth_shifted:
  fixes h d l :: real
  assumes n: "0 < - sin (toRad (h * 15)) * cos d" and c: "0 < cos (toRad l)"
  shows "\<exists>z. azimuth (equatorialToHorizontal_sky h d l) = Fin z \<and> 0 < z \<and> z < 180"
proof -
  define ha where "ha = toRad (h * 15)"
  define la where "la = toRad l"
  define sinAlt where "sinAlt = sin d * sin la + cos d * cos la * cos ha"
  define alt where "alt = arcsin sinAlt"
  have r: "- 1 \<le> sinAlt \<and> sinAlt \<le> 1"
    unfolding sinAlt_def by (rule sinAlt_range)
  have nz: "cos alt \<noteq> 0"
  proof
    assume "cos alt = 0"
    with r have "sinAlt = 1 \<or> sinAlt = - 1"
      unfolding alt_def by (intro cos_arcsin_zero) blast+
    then have "sin ha * cos d = 0"
      unfolding sinAlt_def using zenith_numerators nadir_numerators by blast
    with n show False unfolding ha_def by simp
  qed
  have "- (pi / 2) \<le> alt \<and> alt \<le> pi / 2"
    unfolding alt_def using r by (intro arcsin_bounded) blast+
  then have "0 \<le> cos alt" by (intro cos_ge_zero) blast+
  with nz have pos: "0 < cos alt" by simp
  have den: "cos la * cos alt \<noteq> 0"
    using c pos unfolding la_def by simp
  have y: "0 < - sin ha * cos d / cos alt"
    using n pos unfolding ha_def by (rule divide_pos_pos)
  have az: "azimuth (equatorialToHorizontal_sky h d l) =
      Fin (toDeg (real_atan2 (- sin ha * cos d / cos alt)
         ((sin d - sin la * sinAlt) / (cos la * cos alt))))"
    using den unfolding alt_def sinAlt_def ha_def la_def by (rule sky_position)
  have "0 < real_atan2 (- sin ha * cos d / cos alt)
         ((sin d - sin la * sinAlt) / (cos la * cos alt))
      \<and> real_atan2 (- sin ha * cos d / cos alt)
         ((sin d - sin la * sinAlt) / (cos la * cos alt)) < pi"
    using y by (rule real_atan2_pos)
  then have "0 < toDeg (real_atan2 (- sin ha * cos d / cos alt)
         ((sin d - sin la * sinAlt) / (cos la * cos alt)))
      \<and> toDeg (real_atan2 (- sin ha * cos d / cos alt)
         ((sin d - sin la * sinAlt) / (cos la * cos alt))) < 180"
    by (intro toDeg_pos_range) blast+
  with az show ?thesis by blast
qed

lemma sky_azimuth_noon:
  fixes d l :: real
  shows "azimuth (equatorialToHorizontal_sky 0 d l) = Fin 0
    \<or> azimuth (equatorialToHorizontal_sky 0 d l) = Fin 180
    \<or> azimuth (equatorialToHorizontal_sky 0 d l) = NaN"
proof -
  define la where "la = toRad l"
  define sinAlt where "sinAlt = sin d * sin la + cos d * cos la * cos (toRad (0 * 15))"
  define alt where "alt = arcsin sinAlt"
  have h0: "sin (toRad (0 * 15)) = 0" by (simp add: toRad_def)
  show ?thesis
  proof (cases "cos la * cos alt = 0")
    case True
    then have "sin d - sin la * sinAlt = 0"
      unfolding alt_def sinAlt_def by (rule zero_denominator_numerator)
    with True have "azimuth (equatorialToHorizontal_sky 0 d l) = NaN"
      unfolding alt_def sinAlt_def la_def by (rule sky_position)
    then show ?thesis by blast
  next
    case False
    then have "azimuth (equatorialToHorizontal_sky 0 d l) =
      Fin (toDeg (real_atan2 (- sin (toRad (0 * 15)) * cos d / cos alt)
         ((sin d - sin la * sinAlt) / (cos la * cos alt))))"
      unfolding alt_def sinAlt_def la_def by (rule sky_position)
    then have "azimuth (equatorialToHorizontal_sky 0 d l) =
      Fin (toDeg (real_atan2 0 ((sin d - sin la * sinAlt) / (cos la * cos alt))))"
      unfolding h0 by simp
    then show ?thesis
      using real_atan2_zero [of "(sin d - sin la * sinAlt) / (cos la * cos alt)"]
      by (auto simp: toDeg_pi toDeg_0)
  qed
qed

lemma solograph_azimuth_noon:
  fixes d l :: real
  assumes "- 90 \<le> l" "l \<le> 90"
  shows "azimuth (equatorialToHorizontal 0 d l) = Fin 0
    \<or> azimuth (equatorialToHorizontal 0 d l) = Fin 180"
proof -
  have h0: "sin (toRad (0 * 15)) = 0" by (simp add: toRad_def)
  note p = solograph_position(3) [OF assms, of 0 d, unfolded h0]
  have "\<exists>x. azimuth (equatorialToHorizontal 0 d l) = Fin (toDeg (real_atan2 0 x))"
    unfolding p by simp blast
  then obtain x where "azimuth (equatorialToHorizontal 0 d l) = Fin (toDeg (real_atan2 0 x))" ..
  then show ?thesis
    using real_atan2_zero [of x] by (auto simp: toDeg_pi toDeg_0)
qed

lemma sin_hour_angle_neg:
  assumes "- 12 < x" "x < 0"
  shows "sin (toRad (x * 15)) < 0"
proof -
  have t: "toRad (x * 15) = - (- x * pi / 12)" by (simp add: toRad_def)
  have "0 < (- x) * pi" using assms pi_gt_zero by (intro mult_pos_pos) simp_all
  then have "0 < - x * pi / 12" by simp
  moreover have "(- x) * pi < 12 * pi"
    using assms pi_gt_zero by (intro mult_strict_right_mono) simp_all
  then have "- x * pi / 12 < pi" by simp
  ultimately have "0 < sin (- x * pi / 12)" by (rule sin_gt_zero)
  then show ?thesis unfolding t sin_minus by simp
qed

lemma cos_declination_pos:
  assumes "0 < t" "t < 90"
  shows "0 < cos (arcsin (sin (toRad t) * sin x))"
proof -
  have r: "0 < toRad t" "toRad t < pi / 2"
    using assms pi_gt_zero by (simp_all add: toRad_def)
  then have c: "0 < cos (toRad t)" by (rule cos_gt_zero)
  have "(sin (toRad t))\<^sup>2 + (cos (toRad t))\<^sup>2 = 1" by simp
  moreover have "0 < (cos (toRad t))\<^sup>2" using c by simp
  ultimately have "(sin (toRad t))\<^sup>2 < 1" by linarith
  moreover have "(sin x)\<^sup>2 \<le> 1"
    using sin_cos_squared_add [of x] zero_le_power2 [of "cos x"] by linarith
  then have "(sin (toRad t) * sin x)\<^sup>2 \<le> (sin (toRad t))\<^sup>2 * 1"
    unfolding power_mult_distrib by (intro mult_left_mono) simp_all
  ultimately have "(sin (toRad t) * sin x)\<^sup>2 < 1" by linarith
  then have "\<bar>sin (toRad t) * sin x\<bar> < 1" by (simp add: abs_square_less_1)
  then have b: "- 1 < sin (toRad t) * sin x" "sin (toRad t) * sin x < 1" by linarith+
  then have "cos (arcsin (sin (toRad t) * sin x)) \<noteq> 0" by (rule cos_arcsin_nonzero)
  moreover have "- (pi / 2) \<le> arcsin (sin (toRad t) * sin x)
      \<and> arcsin (sin (toRad t) * sin x) \<le> pi / 2"
    using b by (intro arcsin_bounded) linarith+
  then have "0 \<le> cos (arcsin (sin (toRad t) * sin x))" by (intro cos_ge_zero) blast+
  ultimately show ?thesis by simp
qed

lemma sky_declination_cos_pos: "0 < cos (getDeclination_sky default_sky day)"
proof -
  have t: "sky_tilt default_sky = 2344 / 100" by (simp add: default_sky_def)
  show ?thesis
    unfolding getDeclination_sky_def Let_def t
    by (rule cos_declination_pos) simp_all
qed

lemma cos_40_pos: "0 < cos (toRad 40)"
proof -
  have t: "toRad 40 = 2 * pi / 9" by (simp add: toRad_def)
  have "0 < 2 * pi / 9" "2 * pi / 9 < pi / 2"
    using pi_gt_zero by linarith+
  then show ?thesis unfolding t by (rule cos_gt_zero)
qed

lemma sky_azimuth_80:
  "\<exists>z. azimuth (equatorialToHorizontal_sky (12 + getEquationOfTime_sky default_sky 80 - 12)
      (getDeclination_sky default_sky 80) 40) = Fin z \<and> 0 < z \<and> z < 180"
proof -
  have "sin (toRad (getEquationOfTime_sky default_sky 80 * 15)) < 0"
    using sky_eot_80 by (intro sin_hour_angle_neg) blast+
  then have "0 < - sin (toRad (getEquationOfTime_sky default_sky 80 * 15))" by simp
  then have "0 < - sin (toRad (getEquationOfTime_sky default_sky 80 * 15))
      * cos (getDeclination_sky default_sky 80)"
    using sky_declination_cos_pos by (rule mult_pos_pos)
  then have "\<exists>z. azimuth (equatorialToHorizontal_sky (getEquationOfTime_sky default_sky 80)
      (getDeclination_sky default_sky 80) 40) = Fin z \<and> 0 < z \<and> z < 180"
    using cos_40_pos by (rule sky_azimuth_shifted)
  then show ?thesis by simp
qed

text \<open>
  C3. The sky view's \<open>getSunPosition\<close> passes the hour angle \<open>(hour + eot) - 12\<close> to its
  transform; the solograph's \<open>initializeHourTraces\<close> stores under every hour from 5 to 19
  the entries computed with the hour angle \<open>hour - 12\<close>. On day 80 the sky view's equation
  of time is not 0, and at hour 12, for the same latitude 40, the two paths give different
  positions: the azimuth of the sky view differs from the azimuth stored in the trace of
  hour 12 at day 80. The shift alone makes a difference: with the sky view's own
  transform and declination, the hour angles \<open>(12 + eot) - 12\<close> and \<open>12 - 12\<close> give
  different azimuths.
\<close>

theorem hour_angle_paths_differ:
  "getSunPosition s day hour =
     equatorialToHorizontal_sky (hour + getEquationOfTime_sky s day - 12)
       (getDeclination_sky s day) (sky_latitude s)
   \<and> sol_hourTraces (initializeHourTraces g) h =
       (if 5 \<le> h \<and> h \<le> 19
        then Some (map (\<lambda>k. hourTracePoint g h (1 + k)) [0..<365]) else None)
   \<and> hourTracePoint g h d =
       \<lparr>tr_day = d,
        tr_altitude = altitude (equatorialToHorizontal (real h - 12)
                        (getDeclination g (real d)) (sol_latitude g)),
        tr_azimuth = azimuth (equatorialToHorizontal (real h - 12)
                        (getDeclination g (real d)) (sol_latitude g))\<rparr>
   \<and> getEquationOfTime_sky default_sky 80 \<noteq> 0
   \<and> sol_latitude default_solograph = sky_latitude default_sky
   \<and> (\<exists>trace. sol_hourTraces (initializeHourTraces default_solograph) 12 = Some trace
        \<and> tr_day (trace ! 79) = 80
        \<and> azimuth (getSunPosition default_sky 80 12) \<noteq> tr_azimuth (trace ! 79))
   \<and> azimuth (equatorialToHorizontal_sky (12 + getEquationOfTime_sky default_sky 80 - 12)
         (getDeclination_sky default_sky 80) 40)
       \<noteq> azimuth (equatorialToHorizontal_sky (12 - 12) (getDeclination_sky default_sky 80) 40)"
proof -
  have sky: "getSunPosition s day hour =
     equatorialToHorizontal_sky (hour + getEquationOfTime_sky s day - 12)
       (getDeclination_sky s day) (sky_latitude s)"
    by (simp add: getSunPosition_def Let_def)
  have traces: "sol_hourTraces (initializeHourTraces g) h =
       (if 5 \<le> h \<and> h \<le> 19
        then Some (map (\<lambda>k. hourTracePoint g h (1 + k)) [0..<365]) else None)"
    by (rule hourTraces_eq)
  have point: "hourTracePoint g h d =
       \<lparr>tr_day = d,
        tr_altitude = altitude (equatorialToHorizontal (real h - 12)
                        (getDeclination g (real d)) (sol_latitude g)),
        tr_azimuth = azimuth (equatorialToHorizontal (real h - 12)
                        (getDeclination g (real d)) (sol_latitude g))\<rparr>"
    by (simp add: hourTracePoint_def Let_def)
  have eot: "getEquationOfTime_sky default_sky 80 \<noteq> 0"
    using sky_eot_80 by simp
  have lat: "sol_latitude default_solograph = sky_latitude default_sky"
    by (simp add: default_solograph_def default_sky_def)
  obtain z where z: "azimuth (equatorialToHorizontal_sky
      (12 + getEquationOfTime_sky default_sky 80 - 12)
      (getDeclination_sky default_sky 80) 40) = Fin z" "0 < z" "z < 180"
    using sky_azimuth_80 by blast
  have sky80: "azimuth (getSunPosition default_sky 80 12) = Fin z"
    unfolding getSunPosition_def Let_def using z(1) by (simp add: default_sky_def)
  define trace where "trace = map (\<lambda>k. hourTracePoint default_solograph 12 (1 + k)) [0..<365]"
  have tr: "sol_hourTraces (initializeHourTraces default_solograph) 12 = Some trace"
    unfolding trace_def by (simp add: hourTraces_eq)
  have nth: "trace ! 79 = hourTracePoint default_solograph 12 80"
    unfolding trace_def by simp
  have "tr_azimuth (trace ! 79) = azimuth (equatorialToHorizontal 0
      (getDeclination default_solograph 80) 40)"
    unfolding nth by (simp add: hourTracePoint_def Let_def default_solograph_def)
  moreover have "azimuth (equatorialToHorizontal 0 (getDeclination default_solograph 80) 40) = Fin 0
    \<or> azimuth (equatorialToHorizontal 0 (getDeclination default_solograph 80) 40) = Fin 180"
    by (rule solograph_azimuth_noon) simp_all
  ultimately have "azimuth (getSunPosition default_sky 80 12) \<noteq> tr_azimuth (trace ! 79)"
    unfolding sky80 using z(2,3) by auto
  moreover have "tr_day (trace ! 79) = 80"
    unfolding nth by (simp add: hourTracePoint_def Let_def)
  ultimately have paths: "\<exists>trace. sol_hourTraces (initializeHourTraces default_solograph) 12 = Some trace
        \<and> tr_day (trace ! 79) = 80
        \<and> azimuth (getSunPosition default_sky 80 12) \<noteq> tr_azimuth (trace ! 79)"
    using tr by blast
  have "azimuth (equatorialToHorizontal_sky 0 (getDeclination_sky default_sky 80) 40) = Fin 0
    \<or> azimuth (equatorialToHorizontal_sky 0 (getDeclination_sky default_sky 80) 40) = Fin 180
    \<or> azimuth (equatorialToHorizontal_sky 0 (getDeclination_sky default_sky 80) 40) = NaN"
    by (rule sky_azimuth_noon)
  then have shift: "azimuth (equatorialToHorizontal_sky (12 + getEquationOfTime_sky default_sky 80 - 12)
         (getDeclination_sky default_sky 80) 40)
       \<noteq> azimuth (equatorialToHorizontal_sky (12 - 12) (getDeclination_sky default_sky 80) 40)"
    unfolding z(1) using z(2,3) by auto
  from sky traces point eot lat paths shift show ?thesis by blast
qed

section \<open>Orbital speed\<close>

text \<open>Sums of cosines over the 365 equally spaced angles of a year, and a second-order
  bound on the cosine of a shifted angle.\<close>

lemma cos_sum_telescope:
  fixes y :: real
  shows "2 * sin (y / 2) * (\<Sum>k<n. cos (real k * y)) = sin ((real n - 1 / 2) * y) + sin (y / 2)"
proof (induction n)
  case 0
  show ?case by simp
next
  case (Suc n)
  have "2 * sin (y / 2) * cos (real n * y)
      = sin (y / 2 + real n * y) + sin (y / 2 - real n * y)"
    using sin_times_cos [of "y / 2" "real n * y"] by simp
  also have "sin (y / 2 - real n * y) = - sin ((real n - 1 / 2) * y)"
    by (simp add: sin_minus [symmetric] algebra_simps del: sin_minus)
  also have "y / 2 + real n * y = (real (Suc n) - 1 / 2) * y"
    by (simp add: algebra_simps)
  finally have step: "2 * sin (y / 2) * cos (real n * y)
      = sin ((real (Suc n) - 1 / 2) * y) - sin ((real n - 1 / 2) * y)"
    by simp
  have "2 * sin (y / 2) * (\<Sum>k<Suc n. cos (real k * y))
      = 2 * sin (y / 2) * (\<Sum>k<n. cos (real k * y)) + 2 * sin (y / 2) * cos (real n * y)"
    by (simp add: algebra_simps)
  then show ?case unfolding Suc.IH step by simp
qed

lemma cos_sum_year:
  fixes j :: nat
  assumes "0 < j" "j < 365"
  shows "(\<Sum>k<365. cos (real k * (2 * pi * real j / 365))) = 0"
proof -
  define y where "y = 2 * pi * real j / 365"
  have half: "y / 2 = real j * pi / 365" by (simp add: y_def)
  have "0 < real j * pi / 365" using assms pi_gt_zero by simp
  moreover have "real j * pi < 365 * pi"
    using assms pi_gt_zero by (intro mult_strict_right_mono) simp_all
  then have "real j * pi / 365 < pi" by simp
  ultimately have pos: "0 < sin (y / 2)" unfolding half by (rule sin_gt_zero)
  have "(real 365 - 1 / 2) * y = - (y / 2) + 2 * real j * pi"
    by (simp add: y_def algebra_simps)
  then have "sin ((real 365 - 1 / 2) * y) = sin (- (y / 2) + 2 * real j * pi)"
    by (rule arg_cong)
  also have "\<dots> = sin (- (y / 2))"
    unfolding sin_add [of "- (y / 2)" "2 * real j * pi"] cos_2npi sin_2npi by simp
  finally have "sin ((real 365 - 1 / 2) * y) = sin (- (y / 2))" .
  then have "sin ((real 365 - 1 / 2) * y) + sin (y / 2) = 0" by simp
  then have "2 * sin (y / 2) * (\<Sum>k<365. cos (real k * y)) = 0"
    unfolding cos_sum_telescope .
  with pos show ?thesis unfolding y_def by simp
qed

lemma cos_shift_bound:
  fixes M C :: real
  shows "cos (M + C) \<le> cos M - C * sin M + C\<^sup>2"
proof -
  have "\<bar>sin C - (\<Sum>m<2. sin_coeff m * C ^ m)\<bar> \<le> inverse (fact 2) * \<bar>C\<bar> ^ 2"
    by (rule Maclaurin_sin_bound)
  moreover have "(\<Sum>m<2. sin_coeff m * C ^ m) = C"
    by (simp add: numeral_2_eq_2 sin_coeff_def)
  ultimately have s: "\<bar>sin C - C\<bar> \<le> C\<^sup>2 / 2" by simp
  have "\<bar>sin (C / 2)\<bar> \<le> \<bar>C / 2\<bar>" by (rule abs_sin_x_le_abs_x)
  then have "\<bar>sin (C / 2)\<bar>\<^sup>2 \<le> \<bar>C / 2\<bar>\<^sup>2" by (intro power_mono) simp_all
  then have "(sin (C / 2))\<^sup>2 \<le> C\<^sup>2 / 4" by (simp add: power_divide)
  moreover have "cos C = 1 - 2 * (sin (C / 2))\<^sup>2"
    using cos_double_sin [of "C / 2"] by simp
  ultimately have c: "1 - cos C \<le> C\<^sup>2 / 2" "0 \<le> 1 - cos C" by simp_all
  have "cos (M + C) - cos M + C * sin M = cos M * (cos C - 1) + sin M * (C - sin C)"
    by (simp add: cos_add algebra_simps)
  also have "\<dots> \<le> \<bar>cos M * (cos C - 1)\<bar> + \<bar>sin M * (C - sin C)\<bar>" by linarith
  also have "\<bar>cos M * (cos C - 1)\<bar> \<le> 1 * (1 - cos C)"
    unfolding abs_mult using c(2) by (intro mult_mono) simp_all
  also have "\<bar>sin M * (C - sin C)\<bar> \<le> 1 * \<bar>sin C - C\<bar>"
    unfolding abs_mult by (intro mult_mono) (simp_all add: abs_minus_commute)
  finally have "cos (M + C) - cos M + C * sin M \<le> (1 - cos C) + \<bar>sin C - C\<bar>" by simp
  with c(1) s show ?thesis by linarith
qed

lemma angle_add:
  fixes k a b :: real
  shows "k * (2 * pi * a / 365) + k * (2 * pi * b / 365) = k * (2 * pi * (a + b) / 365)"
  by (simp add: field_simps)

lemma angle_diff:
  fixes k a b :: real
  shows "k * (2 * pi * a / 365) - k * (2 * pi * b / 365) = - (k * (2 * pi * (b - a) / 365))"
  by (simp add: field_simps)

lemma sin_product_sum_diff:
  fixes i j :: nat
  assumes "i < j" "i + j < 365"
  shows "(\<Sum>k<365. sin (real k * (2 * pi * real i / 365)) * sin (real k * (2 * pi * real j / 365))) = 0"
proof -
  have prod: "sin (real k * (2 * pi * real i / 365)) * sin (real k * (2 * pi * real j / 365))
      = (cos (real k * (2 * pi * real (j - i) / 365)) - cos (real k * (2 * pi * real (i + j) / 365))) / 2"
    for k
  proof -
    have r: "real (j - i) = real j - real i" "real (i + j) = real i + real j"
      using assms(1) by (simp_all add: of_nat_diff)
    have "real k * (2 * pi * real i / 365) - real k * (2 * pi * real j / 365)
        = - (real k * (2 * pi * real (j - i) / 365))"
      unfolding r by (rule angle_diff)
    moreover have "real k * (2 * pi * real i / 365) + real k * (2 * pi * real j / 365)
        = real k * (2 * pi * real (i + j) / 365)"
      unfolding r by (rule angle_add)
    ultimately show ?thesis
      unfolding sin_times_sin by (simp only: cos_minus)
  qed
  have "0 < j - i" "j - i < 365" using assms by simp_all
  then have a: "(\<Sum>k<365. cos (real k * (2 * pi * real (j - i) / 365))) = 0"
    by (rule cos_sum_year)
  have "0 < i + j" using assms by simp
  then have b: "(\<Sum>k<365. cos (real k * (2 * pi * real (i + j) / 365))) = 0"
    using assms(2) by (rule cos_sum_year)
  show ?thesis
    unfolding prod sum_divide_distrib [symmetric] sum_subtractf a b by simp
qed

lemma sin_square_sum:
  fixes i :: nat
  assumes "0 < i" "i + i < 365"
  shows "(\<Sum>k<365. sin (real k * (2 * pi * real i / 365)) * sin (real k * (2 * pi * real i / 365))) = 365 / 2"
proof -
  have prod: "sin (real k * (2 * pi * real i / 365)) * sin (real k * (2 * pi * real i / 365))
      = (1 - cos (real k * (2 * pi * real (i + i) / 365))) / 2"
    for k
  proof -
    have r: "real (i + i) = real i + real i" by simp
    have "real k * (2 * pi * real i / 365) + real k * (2 * pi * real i / 365)
        = real k * (2 * pi * real (i + i) / 365)"
      unfolding r by (rule angle_add)
    then show ?thesis
      unfolding sin_times_sin by (simp only: diff_self cos_zero)
  qed
  have "0 < i + i" using assms by simp
  then have b: "(\<Sum>k<365. cos (real k * (2 * pi * real (i + i) / 365))) = 0"
    using assms(2) by (rule cos_sum_year)
  show ?thesis
    unfolding prod sum_divide_distrib [symmetric] sum_subtractf b by simp
qed

lemma year_shift_back: "a < 365 \<Longrightarrow> ((a + 362) mod 365 + 3) mod 365 = (a::nat)"
  by (simp add: mod_add_left_eq)

lemma year_shift_forth: "b < 365 \<Longrightarrow> ((b + 3) mod 365 + 362) mod 365 = (b::nat)"
  by (simp add: mod_add_left_eq)

lemma year_reindex:
  fixes G :: "nat \<Rightarrow> real"
  shows "(\<Sum>d<365. G ((d + 362) mod 365)) = (\<Sum>m<365. G m)"
  by (rule sum.reindex_bij_witness [where i = "\<lambda>m. (m + 3) mod 365"
      and j = "\<lambda>d. (d + 362) mod 365"]) (simp_all add: year_shift_back year_shift_forth)

lemma year_angle_sums:
  "(\<Sum>k<365. cos (real k * (2 * pi / 365))) = 0"
  "(\<Sum>k<365. sin (real k * (2 * pi / 365)) * sin (real k * (2 * pi / 365))) = 365 / 2"
  "(\<Sum>k<365. sin (real k * (2 * pi / 365)) * sin (2 * (real k * (2 * pi / 365)))) = 0"
  "(\<Sum>k<365. sin (real k * (2 * pi / 365)) * sin (3 * (real k * (2 * pi / 365)))) = 0"
proof -
  show "(\<Sum>k<365. cos (real k * (2 * pi / 365))) = 0"
    using cos_sum_year [of 1] by simp
  show "(\<Sum>k<365. sin (real k * (2 * pi / 365)) * sin (real k * (2 * pi / 365))) = 365 / 2"
    using sin_square_sum [of 1] by simp
  have 2: "2 * (real k * (2 * pi / 365)) = real k * (2 * pi * real 2 / 365)" for k
    by simp
  have 3: "3 * (real k * (2 * pi / 365)) = real k * (2 * pi * real 3 / 365)" for k
    by simp
  have 1: "real k * (2 * pi / 365) = real k * (2 * pi * real 1 / 365)" for k
    by simp
  show "(\<Sum>k<365. sin (real k * (2 * pi / 365)) * sin (2 * (real k * (2 * pi / 365)))) = 0"
    unfolding 2 by (subst 1) (rule sin_product_sum_diff, simp_all)
  show "(\<Sum>k<365. sin (real k * (2 * pi / 365)) * sin (3 * (real k * (2 * pi / 365)))) = 0"
    unfolding 3 by (subst 1) (rule sin_product_sum_diff, simp_all)
qed

lemma equation_of_centre_bound:
  fixes a b c M :: real
  assumes "0 \<le> a" "0 \<le> b" "0 \<le> c"
  shows "(a * sin M + b * sin (2 * M) + c * sin (3 * M))\<^sup>2 \<le> (a + b + c)\<^sup>2"
proof -
  have le: "\<bar>u * sin v\<bar> \<le> u" if "0 \<le> u" for u v :: real
  proof -
    have "\<bar>u * sin v\<bar> = u * \<bar>sin v\<bar>" using that by (simp add: abs_mult)
    also have "\<dots> \<le> u * 1" using that by (intro mult_left_mono) simp_all
    finally show ?thesis by simp
  qed
  have "\<bar>a * sin M\<bar> \<le> a" "\<bar>b * sin (2 * M)\<bar> \<le> b" "\<bar>c * sin (3 * M)\<bar> \<le> c"
    using assms by (simp_all only: le)
  then have "\<bar>a * sin M + b * sin (2 * M) + c * sin (3 * M)\<bar> \<le> a + b + c"
    by linarith
  then have "\<bar>a * sin M + b * sin (2 * M) + c * sin (3 * M)\<bar>\<^sup>2 \<le> (a + b + c)\<^sup>2"
    by (intro power_mono) simp_all
  then show ?thesis by simp
qed

lemma cos_true_anomaly_sum:
  fixes a b c :: real and x :: "nat \<Rightarrow> real" and n :: nat
  assumes nonneg: "0 \<le> a" "0 \<le> b" "0 \<le> c"
    and c1: "(\<Sum>k<n. cos (x k)) = 0"
    and s1: "(\<Sum>k<n. sin (x k) * sin (x k)) = real n / 2"
    and s2: "(\<Sum>k<n. sin (x k) * sin (2 * x k)) = 0"
    and s3: "(\<Sum>k<n. sin (x k) * sin (3 * x k)) = 0"
  shows "(\<Sum>k<n. cos (x k + (a * sin (x k) + b * sin (2 * x k) + c * sin (3 * x k))))
         \<le> real n * ((a + b + c)\<^sup>2 - a / 2)"
proof -
  define C where "C M = a * sin M + b * sin (2 * M) + c * sin (3 * M)" for M :: real
  have "(\<Sum>k<n. cos (x k + C (x k)))
      \<le> (\<Sum>k<n. cos (x k) - C (x k) * sin (x k) + (a + b + c)\<^sup>2)"
  proof (rule sum_mono)
    fix k
    have "cos (x k + C (x k)) \<le> cos (x k) - C (x k) * sin (x k) + (C (x k))\<^sup>2"
      by (rule cos_shift_bound)
    moreover have "(C (x k))\<^sup>2 \<le> (a + b + c)\<^sup>2"
      unfolding C_def using nonneg by (rule equation_of_centre_bound)
    ultimately show "cos (x k + C (x k)) \<le> cos (x k) - C (x k) * sin (x k) + (a + b + c)\<^sup>2"
      by linarith
  qed
  also have "\<dots> = (\<Sum>k<n. cos (x k)) - (\<Sum>k<n. C (x k) * sin (x k))
      + real n * (a + b + c)\<^sup>2"
    by (simp add: sum.distrib sum_subtractf)
  also have "(\<Sum>k<n. C (x k) * sin (x k))
      = a * (\<Sum>k<n. sin (x k) * sin (x k)) + b * (\<Sum>k<n. sin (x k) * sin (2 * x k))
        + c * (\<Sum>k<n. sin (x k) * sin (3 * x k))"
    unfolding C_def sum_distrib_left sum.distrib [symmetric]
    by (rule sum.cong) (simp_all add: algebra_simps)
  finally show ?thesis
    unfolding c1 s1 s2 s3 C_def by (simp add: algebra_simps)
qed

lemma default_mean_anomaly:
  assumes "d < 365"
  shows "getMeanAnomaly default_params (real d) = real ((d + 362) mod 365) * (2 * pi / 365)"
proof -
  define q where "q = (d + 362) div 365"
  define r where "r = (d + 362) mod 365"
  have "\<lfloor>real (d + 362) / real 365\<rfloor> = int ((d + 362) div 365)"
    by (rule floor_divide_of_nat_eq)
  then have fl: "\<lfloor>(362 + real d) / 365\<rfloor> = int q" by (simp add: q_def add.commute)
  have "d + 362 = 365 * q + r" unfolding q_def r_def by simp
  then have "real (d + 362) = real (365 * q + r)" by (rule arg_cong)
  then have dec: "362 + real d - 365 * real q = real r" by simp
  have "0 \<le> (362 + real d) / 365" by simp
  then have "js_rem (362 + real d) 365 = 362 + real d - 365 * real q"
    unfolding js_rem_def js_trunc_def fl by simp
  then have rem: "js_rem (362 + real d) 365 = real r"
    unfolding dec .
  have "real d - of_int 3 + 365 = 362 + real d" by simp
  then have "getMeanAnomaly default_params (real d) = toRad (360 * real r / 365)"
    unfolding getMeanAnomaly_def Let_def by (simp add: default_params_def rem)
  then show ?thesis
    unfolding r_def by (simp add: toRad_def)
qed

lemma default_speed_sum:
  "(\<Sum>d<365. getOrbitalSpeed default_params (real d))
     \<le> 365 + (17 / 1000) *
        (365 * ((2 * (17 / 1000) - (17 / 1000) * (17 / 1000) * (17 / 1000) / 4
                 + 5 * (17 / 1000) * (17 / 1000) / 4
                 + 13 * (17 / 1000) * (17 / 1000) * (17 / 1000) / 12)\<^sup>2
               - (2 * (17 / 1000) - (17 / 1000) * (17 / 1000) * (17 / 1000) / 4) / 2))"
proof -
  define e :: real where "e = 17 / 1000"
  define a where "a = 2 * e - e * e * e / 4"
  define b where "b = 5 * e * e / 4"
  define c where "c = 13 * e * e * e / 12"
  define x where "x k = real k * (2 * pi / 365)" for k :: nat
  define G where "G k = cos (x k + (a * sin (x k) + b * sin (2 * x k) + c * sin (3 * x k)))"
    for k :: nat
  have nonneg: "0 \<le> a" "0 \<le> b" "0 \<le> c" "0 \<le> e"
    by (simp_all add: a_def b_def c_def e_def)
  have speed: "getOrbitalSpeed default_params (real d) = 1 + e * G ((d + 362) mod 365)"
    if "d \<in> {..<365}" for d
  proof -
    from that have "d < 365" by simp
    then have M: "getMeanAnomaly default_params (real d) = x ((d + 362) mod 365)"
      unfolding x_def by (rule default_mean_anomaly)
    have ecc: "eccentricity default_params = e"
      by (simp add: default_params_def e_def)
    show ?thesis
      unfolding getOrbitalSpeed_def getTrueAnomaly_def Let_def M ecc G_def a_def b_def c_def ..
  qed
  have "(\<Sum>d<365. getOrbitalSpeed default_params (real d))
      = (\<Sum>d<365. 1 + e * G ((d + 362) mod 365))"
    by (rule sum.cong) (simp_all only: speed)
  also have "\<dots> = 365 + e * (\<Sum>d<365. G ((d + 362) mod 365))"
    by (simp add: sum.distrib sum_distrib_left)
  also have "(\<Sum>d<365. G ((d + 362) mod 365)) = (\<Sum>k<365. G k)"
    by (rule year_reindex)
  finally have eq: "(\<Sum>d<365. getOrbitalSpeed default_params (real d))
      = 365 + e * (\<Sum>k<365. G k)" .
  have "(\<Sum>k<365. G k) \<le> real 365 * ((a + b + c)\<^sup>2 - a / 2)"
    unfolding G_def using nonneg(1,2,3)
  proof (rule cos_true_anomaly_sum)
    show "(\<Sum>k<365. cos (x k)) = 0"
      unfolding x_def by (rule year_angle_sums)
    show "(\<Sum>k<365. sin (x k) * sin (x k)) = real 365 / 2"
      unfolding x_def year_angle_sums by simp
    show "(\<Sum>k<365. sin (x k) * sin (2 * x k)) = 0"
      unfolding x_def by (rule year_angle_sums)
    show "(\<Sum>k<365. sin (x k) * sin (3 * x k)) = 0"
      unfolding x_def by (rule year_angle_sums)
  qed
  then have "e * (\<Sum>k<365. G k) \<le> e * (real 365 * ((a + b + c)\<^sup>2 - a / 2))"
    using nonneg(4) by (rule mult_left_mono)
  then show ?thesis
    unfolding eq a_def b_def c_def e_def by simp
qed

lemma mean_of_shifted_cosines:
  fixes e :: real and v :: "nat \<Rightarrow> real" and n :: nat
  assumes "0 < n"
  shows "\<bar>(\<Sum>d<n. 1 + e * cos (v d)) / real n - 1\<bar> \<le> \<bar>e\<bar>"
proof -
  have "(\<Sum>d<n. 1 + e * cos (v d)) = real n + e * (\<Sum>d<n. cos (v d))"
    by (simp add: sum.distrib sum_distrib_left)
  then have eq: "(\<Sum>d<n. 1 + e * cos (v d)) / real n - 1 = e * ((\<Sum>d<n. cos (v d)) / real n)"
    using assms by (simp add: field_simps)
  have "\<bar>\<Sum>d<n. cos (v d)\<bar> \<le> (\<Sum>d<n. \<bar>cos (v d)\<bar>)" by (rule sum_abs)
  also have "\<dots> \<le> (\<Sum>d<n. 1)" by (rule sum_mono) simp
  finally have "\<bar>\<Sum>d<n. cos (v d)\<bar> \<le> real n" by simp
  then have "\<bar>(\<Sum>d<n. cos (v d)) / real n\<bar> \<le> 1"
    using assms by (simp add: field_simps)
  then have "\<bar>e\<bar> * \<bar>(\<Sum>d<n. cos (v d)) / real n\<bar> \<le> \<bar>e\<bar> * 1"
    by (intro mult_left_mono) simp_all
  then show ?thesis unfolding eq abs_mult by simp
qed

text \<open>
  C8 (as amended). For every day \<open>getOrbitalSpeed\<close> is
  \<open>1 + e * cos (trueAnomaly (meanAnomaly day))\<close> for the current eccentricity \<open>e\<close>. No
  normalisation is applied: the mean of the speed over the 365 days of the year lies
  within \<open>|e|\<close> of 1, and it is 1 when the eccentricity is 0.
\<close>

theorem getOrbitalSpeed_mean:
  "getOrbitalSpeed p day = 1 + eccentricity p * cos (getTrueAnomaly p (getMeanAnomaly p day))
   \<and> \<bar>yearlyMeanSpeed p - 1\<bar> \<le> \<bar>eccentricity p\<bar>
   \<and> yearlyMeanSpeed (p\<lparr>eccentricity := 0\<rparr>) = 1"
proof -
  have f: "getOrbitalSpeed q d = 1 + eccentricity q * cos (getTrueAnomaly q (getMeanAnomaly q d))"
    for q d
    by (simp add: getOrbitalSpeed_def Let_def)
  have m: "\<bar>yearlyMeanSpeed q - 1\<bar> \<le> \<bar>eccentricity q\<bar>" for q
  proof -
    have "\<bar>(\<Sum>d<365. 1 + eccentricity q
          * cos (getTrueAnomaly q (getMeanAnomaly q (real d)))) / real 365 - 1\<bar>
        \<le> \<bar>eccentricity q\<bar>"
      by (rule mean_of_shifted_cosines) simp
    then show ?thesis
      unfolding yearlyMeanSpeed_def f atLeast0LessThan by simp
  qed
  have "\<bar>yearlyMeanSpeed (p\<lparr>eccentricity := 0\<rparr>) - 1\<bar> \<le> \<bar>eccentricity (p\<lparr>eccentricity := 0\<rparr>)\<bar>"
    by (rule m)
  then have z: "yearlyMeanSpeed (p\<lparr>eccentricity := 0\<rparr>) = 1" by simp
  from f m z show ?thesis by blast
qed

text \<open>
  C8 as stated fails: with the default parameters (eccentricity 0.017, perihelion day 3)
  the mean over the days 0, ..., 364 is strictly below 1. The days run through all 365
  mean anomalies \<open>2\<pi>k/365\<close>; over these the cosines of the mean anomaly sum to 0, and the
  equation of centre moves the sum of the cosines of the true anomaly below 0.
\<close>

theorem yearlyMeanSpeed_counterexample:
  "yearlyMeanSpeed default_params \<noteq> 1 \<and> yearlyMeanSpeed default_params < 1"
proof -
  have "(\<Sum>d<365. getOrbitalSpeed default_params (real d)) < 365"
    by (rule le_less_trans [OF default_speed_sum]) (simp add: power2_eq_square)
  then have "yearlyMeanSpeed default_params < 1"
    unfolding yearlyMeanSpeed_def atLeast0LessThan by simp
  then show ?thesis by simp
qed

end
